theory Spec2Isabelle
  imports Complex_Main "HOL-Library.Sublist" "HOL-Library.AList"
begin

section \<open>Python values as the dashboard sees them\<close>

text \<open>
  The dashboard (\<^verbatim>\<open>web_dashboard.py\<close>) works on decoded JSON payloads with Python's
  dynamic operations. The embedding keeps that shape: a datatype of JSON values, Python's
  floats with their three special values, and every operation that can raise returning a
  sum with the exception on the left.

  A finite float is modelled by the real number it denotes: rounding, overflow to infinity
  and the sign of zero are not modelled. The special values are, since the code tests for
  them (\<^verbatim>\<open>math.isinf\<close>, \<^verbatim>\<open>math.isnan\<close>) and comparisons with NaN are false.
\<close>

datatype pyfloat = Finite real | PosInf | NegInf | NaN

datatype error =
    TypeError | AttributeError | ValueError | KeyError | IndexError
  | ZeroDivisionError | OverflowError | JSONDecodeError | RequestError

datatype json =
    JNull
  | JBool bool
  | JInt int
  | JFloat pyfloat
  | JStr string
  | JList "json list"
  | JObj "(string \<times> json) list"

text \<open>
  \<^verbatim>\<open>float(s)\<close> and \<^verbatim>\<open>int(s)\<close> on a string are Python's own parsers. They are
  parameters of the model: \<open>None\<close> is the \<^verbatim>\<open>ValueError\<close> of a string that does not parse.
\<close>

record pyenv =
  float_of_str :: "string \<Rightarrow> pyfloat option"
  int_of_str :: "string \<Rightarrow> int option"

subsection \<open>Float operations\<close>

definition is_inf :: "pyfloat \<Rightarrow> bool" where
  "is_inf x = (x = PosInf \<or> x = NegInf)"

definition is_nan :: "pyfloat \<Rightarrow> bool" where
  "is_nan x = (x = NaN)"

text \<open>\<^verbatim>\<open>a > b\<close>, \<^verbatim>\<open>a < b\<close> and \<^verbatim>\<open>a == b\<close> on floats: false as soon as one side is NaN.\<close>

fun fgt :: "pyfloat \<Rightarrow> pyfloat \<Rightarrow> bool" where
  "fgt NaN _ = False"
| "fgt _ NaN = False"
| "fgt (Finite a) (Finite b) = (a > b)"
| "fgt PosInf PosInf = False"
| "fgt PosInf _ = True"
| "fgt _ PosInf = False"
| "fgt NegInf _ = False"
| "fgt _ NegInf = True"

definition flt :: "pyfloat \<Rightarrow> pyfloat \<Rightarrow> bool" where
  "flt a b = fgt b a"

definition feq :: "pyfloat \<Rightarrow> pyfloat \<Rightarrow> bool" where
  "feq a b = (a \<noteq> NaN \<and> a = b)"

definition fge :: "pyfloat \<Rightarrow> pyfloat \<Rightarrow> bool" where
  "fge a b = (fgt a b \<or> feq a b)"

definition fneg :: "pyfloat \<Rightarrow> pyfloat" where
  "fneg x = (case x of Finite a \<Rightarrow> Finite (- a) | PosInf \<Rightarrow> NegInf | NegInf \<Rightarrow> PosInf | NaN \<Rightarrow> NaN)"

fun fadd :: "pyfloat \<Rightarrow> pyfloat \<Rightarrow> pyfloat" where
  "fadd NaN _ = NaN"
| "fadd _ NaN = NaN"
| "fadd (Finite a) (Finite b) = Finite (a + b)"
| "fadd PosInf NegInf = NaN"
| "fadd NegInf PosInf = NaN"
| "fadd PosInf _ = PosInf"
| "fadd NegInf _ = NegInf"
| "fadd _ PosInf = PosInf"
| "fadd _ NegInf = NegInf"

definition fsub :: "pyfloat \<Rightarrow> pyfloat \<Rightarrow> pyfloat" where
  "fsub a b = fadd a (fneg b)"

text \<open>The sign of a float that is not NaN, as \<open>-1\<close>, \<open>0\<close> or \<open>1\<close>.\<close>

definition fsign :: "pyfloat \<Rightarrow> int" where
  "fsign x = (case x of Finite a \<Rightarrow> (if a > 0 then 1 else if a < 0 then - 1 else 0)
                      | PosInf \<Rightarrow> 1 | NegInf \<Rightarrow> - 1 | NaN \<Rightarrow> 0)"

definition signed_inf :: "int \<Rightarrow> pyfloat" where
  "signed_inf s = (if s > 0 then PosInf else if s < 0 then NegInf else NaN)"

fun fmul :: "pyfloat \<Rightarrow> pyfloat \<Rightarrow> pyfloat" where
  "fmul NaN _ = NaN"
| "fmul _ NaN = NaN"
| "fmul (Finite a) (Finite b) = Finite (a * b)"
| "fmul a b = signed_inf (fsign a * fsign b)"

text \<open>
  \<^verbatim>\<open>a / b\<close> on floats raises \<^verbatim>\<open>ZeroDivisionError\<close> when \<open>b\<close> is zero, whatever \<open>a\<close> is.
\<close>

fun fdiv :: "pyfloat \<Rightarrow> pyfloat \<Rightarrow> error + pyfloat" where
  "fdiv a (Finite b) =
     (if b = 0 then Inl ZeroDivisionError
      else case a of Finite x \<Rightarrow> Inr (Finite (x / b))
                   | NaN \<Rightarrow> Inr NaN
                   | _ \<Rightarrow> Inr (signed_inf (fsign a * fsign (Finite b))))"
| "fdiv NaN _ = Inr NaN"
| "fdiv _ NaN = Inr NaN"
| "fdiv (Finite a) _ = Inr (Finite 0)"
| "fdiv _ _ = Inr NaN"

text \<open>
  The builtins \<^verbatim>\<open>min(a, b)\<close> and \<^verbatim>\<open>max(a, b)\<close> keep the first argument unless the
  second is strictly smaller (larger).
\<close>

definition py_min :: "pyfloat \<Rightarrow> pyfloat \<Rightarrow> pyfloat" where
  "py_min a b = (if flt b a then b else a)"

definition py_max :: "pyfloat \<Rightarrow> pyfloat \<Rightarrow> pyfloat" where
  "py_max a b = (if fgt b a then b else a)"

subsection \<open>Strings\<close>

definition endswith :: "string \<Rightarrow> string \<Rightarrow> bool" where
  "endswith s suf = (length suf \<le> length s \<and> drop (length s - length suf) s = suf)"

text \<open>
  \<^verbatim>\<open>s.replace(old, new)\<close> for a non-empty \<open>old\<close>: the occurrences are found from the
  left and do not overlap.
\<close>

fun py_replace :: "string \<Rightarrow> string \<Rightarrow> string \<Rightarrow> string" where
  "py_replace old new [] = []"
| "py_replace old new (c # cs) =
     (if old \<noteq> [] \<and> prefix old (c # cs)
      then new @ py_replace old new (drop (length old) (c # cs))
      else c # py_replace old new cs)"

text \<open>\<^verbatim>\<open>sym.replace("USDT", "/USDT")\<close>, the symbol as the dashboard shows it.\<close>

definition display_symbol :: "string \<Rightarrow> string" where
  "display_symbol s = py_replace ''USDT'' ''/USDT'' s"

subsection \<open>Dynamic operations on JSON values\<close>

text \<open>\<^verbatim>\<open>float(v)\<close>.\<close>

fun py_float :: "pyenv \<Rightarrow> json \<Rightarrow> error + pyfloat" where
  "py_float E (JInt n) = Inr (Finite (of_int n))"
| "py_float E (JFloat f) = Inr f"
| "py_float E (JBool b) = Inr (Finite (if b then 1 else 0))"
| "py_float E (JStr s) = (case float_of_str E s of Some f \<Rightarrow> Inr f | None \<Rightarrow> Inl ValueError)"
| "py_float E _ = Inl TypeError"

text \<open>\<^verbatim>\<open>int(v)\<close>: a float is truncated towards zero.\<close>

fun py_int :: "pyenv \<Rightarrow> json \<Rightarrow> error + int" where
  "py_int E (JInt n) = Inr n"
| "py_int E (JBool b) = Inr (if b then 1 else 0)"
| "py_int E (JFloat (Finite r)) = Inr (if r \<ge> 0 then \<lfloor>r\<rfloor> else \<lceil>r\<rceil>)"
| "py_int E (JFloat NaN) = Inl ValueError"
| "py_int E (JFloat _) = Inl OverflowError"
| "py_int E (JStr s) = (case int_of_str E s of Some n \<Rightarrow> Inr n | None \<Rightarrow> Inl ValueError)"
| "py_int E _ = Inl TypeError"

text \<open>\<^verbatim>\<open>d.get(k, default)\<close>: only a dict has the method.\<close>

fun py_get :: "json \<Rightarrow> string \<Rightarrow> json \<Rightarrow> error + json" where
  "py_get (JObj kvs) k d = Inr (case map_of kvs k of Some v \<Rightarrow> v | None \<Rightarrow> d)"
| "py_get _ k d = Inl AttributeError"

text \<open>\<^verbatim>\<open>v > 0\<close> against the integer zero: numbers compare, everything else raises.\<close>

fun py_gt0 :: "json \<Rightarrow> error + bool" where
  "py_gt0 (JInt n) = Inr (n > 0)"
| "py_gt0 (JBool b) = Inr b"
| "py_gt0 (JFloat f) = Inr (fgt f (Finite 0))"
| "py_gt0 _ = Inl TypeError"

text \<open>\<^verbatim>\<open>for x in v\<close>: a list gives its elements, a dict its keys, a string its characters.\<close>

fun py_iter :: "json \<Rightarrow> error + json list" where
  "py_iter (JList xs) = Inr xs"
| "py_iter (JObj kvs) = Inr (map (\<lambda>(k, v). JStr k) kvs)"
| "py_iter (JStr s) = Inr (map (\<lambda>c. JStr [c]) s)"
| "py_iter _ = Inl TypeError"

text \<open>\<^verbatim>\<open>"k" in v\<close> for a string \<open>k\<close>: a key of a dict, an element of a list, a substring of a string.\<close>

fun py_contains :: "string \<Rightarrow> json \<Rightarrow> error + bool" where
  "py_contains k (JObj kvs) = Inr (k \<in> fst ` set kvs)"
| "py_contains k (JList xs) = Inr (JStr k \<in> set xs)"
| "py_contains k (JStr s) = Inr (sublist k s)"
| "py_contains k _ = Inl TypeError"

text \<open>\<^verbatim>\<open>v["k"]\<close> with a string key.\<close>

fun py_item :: "json \<Rightarrow> string \<Rightarrow> error + json" where
  "py_item (JObj kvs) k = (case map_of kvs k of Some v \<Rightarrow> Inr v | None \<Rightarrow> Inl KeyError)"
| "py_item _ k = Inl TypeError"

text \<open>\<^verbatim>\<open>v[i]\<close> with a literal index \<open>i \<ge> 0\<close>.\<close>

fun py_index :: "json \<Rightarrow> nat \<Rightarrow> error + json" where
  "py_index (JList xs) i = (if i < length xs then Inr (xs ! i) else Inl IndexError)"
| "py_index (JStr s) i = (if i < length s then Inr (JStr [s ! i]) else Inl IndexError)"
| "py_index (JObj kvs) i = Inl KeyError"
| "py_index _ i = Inl TypeError"

text \<open>\<^verbatim>\<open>len(v)\<close>.\<close>

fun py_len :: "json \<Rightarrow> error + nat" where
  "py_len (JList xs) = Inr (length xs)"
| "py_len (JStr s) = Inr (length s)"
| "py_len (JObj kvs) = Inr (length kvs)"
| "py_len _ = Inl TypeError"

definition is_list :: "json \<Rightarrow> bool" where
  "is_list v = (case v of JList _ \<Rightarrow> True | _ \<Rightarrow> False)"

definition is_dict :: "json \<Rightarrow> bool" where
  "is_dict v = (case v of JObj _ \<Rightarrow> True | _ \<Rightarrow> False)"

text \<open>Sequencing of computations that may raise: the first exception wins.\<close>

definition bind_err :: "error + 'a \<Rightarrow> ('a \<Rightarrow> error + 'b) \<Rightarrow> error + 'b" where
  "bind_err m f = (case m of Inl e \<Rightarrow> Inl e | Inr x \<Rightarrow> f x)"

fun map_err :: "('a \<Rightarrow> error + 'b) \<Rightarrow> 'a list \<Rightarrow> error + 'b list" where
  "map_err f [] = Inr []"
| "map_err f (x # xs) =
     bind_err (f x) (\<lambda>y. bind_err (map_err f xs) (\<lambda>ys. Inr (y # ys)))"


text \<open>\<^verbatim>\<open>float(t.get(k, 0))\<close> and \<^verbatim>\<open>int(t.get(k, 0))\<close>.\<close>

definition float_field :: "pyenv \<Rightarrow> json \<Rightarrow> string \<Rightarrow> error + pyfloat" where
  "float_field E t k = bind_err (py_get t k (JInt 0)) (py_float E)"

definition int_field :: "pyenv \<Rightarrow> json \<Rightarrow> string \<Rightarrow> error + int" where
  "int_field E t k = bind_err (py_get t k (JInt 0)) (py_int E)"

section \<open>The upstream exchange and the cache\<close>

text \<open>
  A request either raises (timeout, connection error) or returns a response with a status
  code and a body; \<^verbatim>\<open>resp.json()\<close> raises when the body does not decode.
\<close>

record response =
  status_code :: int
  body :: "json option"

type_synonym http_result = "error + response"

definition resp_json :: "response \<Rightarrow> error + json" where
  "resp_json r = (case body r of None \<Rightarrow> Inl JSONDecodeError | Some v \<Rightarrow> Inr v)"

text \<open>
  What the exchange answers during one call: the four resources of the snapshot, the
  long/short ratio of each symbol, the sentiment index. \<open>ls_client_failure\<close> stands for an
  exception of the batch's HTTP client outside the per-symbol requests, the only way into
  the batch's outer handler.
\<close>

record upstream =
  ticker_24hr :: http_result
  premium_index :: http_result
  funding_info :: http_result
  klines :: http_result
  long_short_ratio :: "string \<Rightarrow> http_result"
  ls_client_failure :: bool
  fng :: http_result

record ls_entry =
  ratio :: pyfloat
  long :: pyfloat
  short :: pyfloat

text \<open>The result dict of the batch fetcher, as an association list with one entry for a key.\<close>

type_synonym ls_map = "(string \<times> ls_entry) list"

record row =
  rank :: nat
  symbol :: string
  price :: pyfloat
  change24h :: pyfloat
  high24h :: pyfloat
  low24h :: pyfloat
  volume24h :: pyfloat
  trades :: int
  fundingRate :: pyfloat
  nextFundingTime :: int
  fundingInterval :: json
  lsRatio :: ls_entry

record snapshot =
  data :: "row list"
  other :: "row list"
  total_volume :: pyfloat
  volume_change :: pyfloat
  ts :: real

record fear_greed =
  fg_value :: int
  classification :: json
  fg_change24h :: pyfloat

text \<open>
  The module's \<^verbatim>\<open>_cache\<close> dictionary, one field for each key the modelled functions
  use. An entry is never removed; a stale one stays as the fallback.
\<close>

record cache =
  ls_ratio_batch :: "(ls_map \<times> real) option"
  binance_tickers_100 :: "snapshot option"
  fear_and_greed :: "(fear_greed \<times> real) option"

definition cache_ttl :: real where
  "cache_ttl = 10"

section \<open>The long/short-ratio batch fetcher\<close>

text \<open>
  The body of \<^verbatim>\<open>fetch_single\<close> inside its \<^verbatim>\<open>try\<close>: \<open>Inr None\<close> when it stores
  nothing, \<open>Inr (Some e)\<close> for \<^verbatim>\<open>result[symbol] = e\<close>, \<open>Inl\<close> for an exception.
\<close>

definition sanitize_ratio :: "pyfloat \<Rightarrow> pyfloat" where
  "sanitize_ratio r = (if is_inf r \<or> is_nan r then Finite 9999 else r)"

definition fetch_single_try :: "pyenv \<Rightarrow> http_result \<Rightarrow> error + ls_entry option" where
  "fetch_single_try E r =
     bind_err r (\<lambda>resp.
       if status_code resp = 200 then
         bind_err (resp_json resp) (\<lambda>d.
           case d of
             JList (d0 # _) \<Rightarrow>
               bind_err (py_get d0 ''longShortRatio'' (JInt 0)) (\<lambda>rv.
               bind_err (py_float E rv) (\<lambda>r.
               bind_err (py_get d0 ''longAccount'' (JInt 0)) (\<lambda>lv.
               bind_err (py_float E lv) (\<lambda>long_acc.
               bind_err (py_get d0 ''shortAccount'' (JInt 0)) (\<lambda>sv.
               bind_err (py_float E sv) (\<lambda>short_acc.
                 Inr (Some \<lparr>ratio = sanitize_ratio r,
                            long = fmul long_acc (Finite 100),
                            short = fmul short_acc (Finite 100)\<rparr>)))))))
           | _ \<Rightarrow> Inr None)
       else Inr None)"

text \<open>The bare \<^verbatim>\<open>except: pass\<close> around it.\<close>

definition fetch_single :: "pyenv \<Rightarrow> http_result \<Rightarrow> ls_entry option" where
  "fetch_single E r = (case fetch_single_try E r of Inl e \<Rightarrow> None | Inr v \<Rightarrow> v)"

text \<open>
  \<^verbatim>\<open>asyncio.gather\<close> over the symbols: each task that succeeds writes its entry. The
  tasks are taken in list order, and the answer of the exchange depends on the symbol only,
  so what is stored for a symbol does not depend on the order.
\<close>

fun gather_ls :: "pyenv \<Rightarrow> (string \<Rightarrow> http_result) \<Rightarrow> string list \<Rightarrow> ls_map \<Rightarrow> ls_map" where
  "gather_ls E f [] result = result"
| "gather_ls E f (s # ss) result =
     gather_ls E f ss (case fetch_single E (f s) of None \<Rightarrow> result | Some e \<Rightarrow> AList.update s e result)"

definition ls_cache_fresh :: "cache \<Rightarrow> real \<Rightarrow> bool" where
  "ls_cache_fresh c now = (case ls_ratio_batch c of None \<Rightarrow> False | Some (d, t) \<Rightarrow> now - t < 300)"

text \<open>\<^verbatim>\<open>_cache.get(cache_key, {}).get("data", {})\<close>.\<close>

definition ls_cached_data :: "cache \<Rightarrow> ls_map" where
  "ls_cached_data c = (case ls_ratio_batch c of None \<Rightarrow> [] | Some (d, t) \<Rightarrow> d)"

definition fetch_ls_ratio_batch ::
  "pyenv \<Rightarrow> upstream \<Rightarrow> real \<Rightarrow> cache \<Rightarrow> string list \<Rightarrow> ls_map \<times> cache" where
  "fetch_ls_ratio_batch E W now c symbols =
     (if ls_cache_fresh c now then (ls_cached_data c, c)
      else if ls_client_failure W then (ls_cached_data c, c)
      else (let result = gather_ls E (long_short_ratio W) symbols [] in
            (result, if result \<noteq> [] then c\<lparr>ls_ratio_batch := Some (result, now)\<rparr> else c)))"

section \<open>The snapshot aggregator\<close>

text \<open>
  \<^verbatim>\<open>asyncio.gather\<close> without \<^verbatim>\<open>return_exceptions\<close>: the first request that raises makes
  the whole \<^verbatim>\<open>await\<close> raise. Every exception ends in the same handler, so which of
  several is reported does not matter.
\<close>

definition gather4 ::
  "http_result \<Rightarrow> http_result \<Rightarrow> http_result \<Rightarrow> http_result \<Rightarrow>
   error + (response \<times> response \<times> response \<times> response)" where
  "gather4 a b c d =
     bind_err a (\<lambda>ra. bind_err b (\<lambda>rb. bind_err c (\<lambda>rc. bind_err d (\<lambda>rd. Inr (ra, rb, rc, rd)))))"

text \<open>The volume-change proxy from the two daily candles of the reference pair.\<close>

definition calc_vol_change :: "pyenv \<Rightarrow> json \<Rightarrow> error + pyfloat" where
  "calc_vol_change E btc_klines =
     (case btc_klines of
        JList (k0 # k1 # _) \<Rightarrow>
          bind_err (py_index k0 7) (\<lambda>a. bind_err (py_float E a) (\<lambda>y_vol.
          bind_err (py_index k1 7) (\<lambda>b. bind_err (py_float E b) (\<lambda>t_vol.
            if fgt y_vol (Finite 0)
            then bind_err (fdiv (fsub t_vol y_vol) y_vol) (\<lambda>q. Inr (fmul q (Finite 100)))
            else Inr (Finite 0)))))
      | _ \<Rightarrow> Inr (Finite 0))"

text \<open>
  The two lookup tables are dicts keyed by whatever the payload holds under \<^verbatim>\<open>"symbol"\<close>.
  They are only ever read at a string, so the model keeps the string keys; a key that is a
  list or a dict is unhashable and raises.
\<close>

fun build_funding_map :: "json list \<Rightarrow> (string \<rightharpoonup> json) \<Rightarrow> error + (string \<rightharpoonup> json)" where
  "build_funding_map [] m = Inr m"
| "build_funding_map (item # items) m =
     bind_err (py_contains ''symbol'' item) (\<lambda>has.
       if has then
         bind_err (py_item item ''symbol'') (\<lambda>k.
           case k of
             JStr s \<Rightarrow> build_funding_map items (m(s \<mapsto> item))
           | JList _ \<Rightarrow> Inl TypeError
           | JObj _ \<Rightarrow> Inl TypeError
           | _ \<Rightarrow> build_funding_map items m)
       else build_funding_map items m)"

fun build_interval_map :: "json list \<Rightarrow> (string \<rightharpoonup> json) \<Rightarrow> error + (string \<rightharpoonup> json)" where
  "build_interval_map [] m = Inr m"
| "build_interval_map (item # items) m =
     (if is_dict item then
        bind_err (py_get item ''symbol'' (JStr [])) (\<lambda>k.
        bind_err (py_get item ''fundingIntervalHours'' (JInt 8)) (\<lambda>v.
          case k of
            JStr s \<Rightarrow> build_interval_map items (m(s \<mapsto> v))
          | JList _ \<Rightarrow> Inl TypeError
          | JObj _ \<Rightarrow> Inl TypeError
          | _ \<Rightarrow> build_interval_map items m))
      else build_interval_map items m)"

text \<open>\<^verbatim>\<open>funding_map.get(sym, {})\<close>.\<close>

definition funding_lookup :: "(string \<rightharpoonup> json) \<Rightarrow> string \<Rightarrow> json" where
  "funding_lookup fm sy = (case fm sy of Some v \<Rightarrow> v | None \<Rightarrow> JObj [])"

text \<open>
  One turn of the filtering loop: where the ticker \<open>t\<close> goes. \<^verbatim>\<open>sym.endswith\<close> exists
  on strings only; \<^verbatim>\<open>and\<close> evaluates its right side only when the left side holds.
\<close>

datatype placement = Dropped | Main | Other

definition place :: "pyenv \<Rightarrow> (string \<rightharpoonup> json) \<Rightarrow> json \<Rightarrow> error + placement" where
  "place E fm t =
     bind_err (py_get t ''symbol'' (JStr [])) (\<lambda>symv.
       case symv of
         JStr sy \<Rightarrow>
           if endswith sy ''USDT'' then
             bind_err (py_get t ''quoteVolume'' (JInt 0)) (\<lambda>qv.
             bind_err (py_float E qv) (\<lambda>vol.
               if fgt vol (Finite 1000000) then
                 bind_err (py_get (funding_lookup fm sy) ''nextFundingTime'' (JInt 0)) (\<lambda>nft.
                 bind_err (py_gt0 nft) (\<lambda>active.
                   if active then
                     bind_err (py_get (funding_lookup fm sy) ''lastFundingRate'' (JInt 0)) (\<lambda>rv.
                     bind_err (py_float E rv) (\<lambda>funding_rate.
                       Inr (if feq funding_rate (Finite 0) then Other else Main)))
                   else Inr Dropped))
               else Inr Dropped))
           else Inr Dropped
       | _ \<Rightarrow> Inl AttributeError)"

text \<open>The loop itself: \<open>(usdt_pairs, other_pairs)\<close>, each in the order of the payload.\<close>

fun classify :: "pyenv \<Rightarrow> (string \<rightharpoonup> json) \<Rightarrow> json list \<Rightarrow> error + (json list \<times> json list)" where
  "classify E fm [] = Inr ([], [])"
| "classify E fm (t # rest) =
     bind_err (place E fm t) (\<lambda>p.
     bind_err (classify E fm rest) (\<lambda>(usdt_pairs, other_pairs).
       Inr (case p of
              Main \<Rightarrow> (t # usdt_pairs, other_pairs)
            | Other \<Rightarrow> (usdt_pairs, t # other_pairs)
            | Dropped \<Rightarrow> (usdt_pairs, other_pairs))))"

text \<open>
  \<^verbatim>\<open>xs.sort(key=..., reverse=True)\<close>: the keys are computed first (any of them may
  raise), then the list is sorted by them, descending; elements with equal keys keep their
  order. The insertion sort below is that sort as long as no key is NaN (with a NaN key
  Python's comparisons are no order and its result depends on the algorithm).
\<close>

fun insert_desc :: "pyfloat \<times> 'a \<Rightarrow> (pyfloat \<times> 'a) list \<Rightarrow> (pyfloat \<times> 'a) list" where
  "insert_desc x [] = [x]"
| "insert_desc x (y # ys) = (if fgt (fst y) (fst x) then y # insert_desc x ys else x # y # ys)"

definition sort_desc :: "(pyfloat \<times> 'a) list \<Rightarrow> (pyfloat \<times> 'a) list" where
  "sort_desc xs = foldr insert_desc xs []"

definition py_sort_desc :: "('a \<Rightarrow> error + pyfloat) \<Rightarrow> 'a list \<Rightarrow> error + 'a list" where
  "py_sort_desc key xs = bind_err (map_err key xs) (\<lambda>ks. Inr (map snd (sort_desc (zip ks xs))))"

definition change_key :: "pyenv \<Rightarrow> json \<Rightarrow> error + pyfloat" where
  "change_key E x = float_field E x ''priceChangePercent''"

text \<open>\<^verbatim>\<open>t.get("symbol")\<close> of a ticker, as the string it is for a ticker that passed the filter.\<close>

definition symbol_str :: "json \<Rightarrow> error + string" where
  "symbol_str t =
     bind_err (py_get t ''symbol'' (JStr [])) (\<lambda>v. case v of JStr s \<Rightarrow> Inr s | _ \<Rightarrow> Inl AttributeError)"

definition ls_default :: ls_entry where
  "ls_default = \<lparr>ratio = Finite 0, long = Finite 0, short = Finite 0\<rparr>"

text \<open>The body of the loop of \<^verbatim>\<open>map_result\<close> for the item \<open>t\<close> at index \<open>i\<close>.\<close>

definition result_row ::
  "pyenv \<Rightarrow> (string \<rightharpoonup> json) \<Rightarrow> (string \<rightharpoonup> json) \<Rightarrow> ls_map \<Rightarrow> nat \<Rightarrow> json \<Rightarrow> error + row" where
  "result_row E fm im ls_ratios i t =
     bind_err (symbol_str t) (\<lambda>sy.
     bind_err (float_field E t ''lastPrice'') (\<lambda>p.
     bind_err (float_field E t ''priceChangePercent'') (\<lambda>ch.
     bind_err (float_field E t ''highPrice'') (\<lambda>hi.
     bind_err (float_field E t ''lowPrice'') (\<lambda>lo.
     bind_err (float_field E t ''quoteVolume'') (\<lambda>vol.
     bind_err (int_field E t ''count'') (\<lambda>cnt.
     bind_err (float_field E (funding_lookup fm sy) ''lastFundingRate'') (\<lambda>fr.
     bind_err (int_field E (funding_lookup fm sy) ''nextFundingTime'') (\<lambda>nft.
       Inr \<lparr>rank = i + 1,
            symbol = display_symbol sy,
            price = p, change24h = ch, high24h = hi, low24h = lo, volume24h = vol,
            trades = cnt, fundingRate = fr, nextFundingTime = nft,
            fundingInterval = (case im sy of Some v \<Rightarrow> v | None \<Rightarrow> JInt 8),
            lsRatio = (case map_of ls_ratios sy of Some e \<Rightarrow> e | None \<Rightarrow> ls_default)\<rparr>)))))))))"

fun map_result_from ::
  "pyenv \<Rightarrow> (string \<rightharpoonup> json) \<Rightarrow> (string \<rightharpoonup> json) \<Rightarrow> ls_map \<Rightarrow> nat \<Rightarrow> json list \<Rightarrow> error + row list" where
  "map_result_from E fm im ls_ratios i [] = Inr []"
| "map_result_from E fm im ls_ratios i (t # rest) =
     bind_err (result_row E fm im ls_ratios i t) (\<lambda>r.
     bind_err (map_result_from E fm im ls_ratios (Suc i) rest) (\<lambda>rs. Inr (r # rs)))"

definition map_result ::
  "pyenv \<Rightarrow> (string \<rightharpoonup> json) \<Rightarrow> (string \<rightharpoonup> json) \<Rightarrow> ls_map \<Rightarrow> json list \<Rightarrow> error + row list" where
  "map_result E fm im ls_ratios items = map_result_from E fm im ls_ratios 0 items"

text \<open>\<^verbatim>\<open>sum(float(t.get("quoteVolume", 0)) for t in ...)\<close>: from \<open>0\<close>, left to right.\<close>

definition sum_volume :: "pyenv \<Rightarrow> json list \<Rightarrow> error + pyfloat" where
  "sum_volume E items =
     bind_err (map_err (\<lambda>t. float_field E t ''quoteVolume'') items) (\<lambda>vs. Inr (foldl fadd (Finite 0) vs))"


text \<open>
  The first half of a refresh cycle, up to the two sorted lists: the four requests, their
  decoding, the volume-change proxy, the lookup tables, the filter and the two sorts.
  Nothing is written before the end of it, so an exception leaves no trace.
\<close>

record joined =
  vol_change :: pyfloat
  funding_map :: "string \<rightharpoonup> json"
  interval_map :: "string \<rightharpoonup> json"
  top100 :: "json list"
  other_top100 :: "json list"

definition collect :: "pyenv \<Rightarrow> upstream \<Rightarrow> error + joined" where
  "collect E W =
     bind_err (gather4 (ticker_24hr W) (premium_index W) (funding_info W) (klines W))
       (\<lambda>(resp_ticker, resp_funding, resp_info, resp_klines).
     bind_err (resp_json resp_ticker) (\<lambda>tickers.
     bind_err (resp_json resp_funding) (\<lambda>funding_data.
     bind_err (resp_json resp_info) (\<lambda>info_data.
     bind_err (resp_json resp_klines) (\<lambda>btc_klines.
     bind_err (calc_vol_change E btc_klines) (\<lambda>vc.
     bind_err (py_iter funding_data) (\<lambda>fitems.
     bind_err (build_funding_map fitems Map.empty) (\<lambda>fm.
     bind_err (case info_data of JList infos \<Rightarrow> build_interval_map infos Map.empty
                               | _ \<Rightarrow> Inr Map.empty) (\<lambda>im.
     bind_err (py_iter tickers) (\<lambda>titems.
     bind_err (classify E fm titems) (\<lambda>(usdt_pairs, other_pairs).
     bind_err (py_sort_desc (change_key E) usdt_pairs) (\<lambda>sorted_main.
     bind_err (py_sort_desc (change_key E) other_pairs) (\<lambda>sorted_other.
       Inr \<lparr>vol_change = vc, funding_map = fm, interval_map = im,
            top100 = sorted_main, other_top100 = sorted_other\<rparr>)))))))))))))"

text \<open>The second half, after the long/short ratios are there.\<close>

definition assemble :: "pyenv \<Rightarrow> joined \<Rightarrow> ls_map \<Rightarrow> real \<Rightarrow> error + snapshot" where
  "assemble E j ls_ratios now =
     bind_err (map_result E (funding_map j) (interval_map j) ls_ratios (top100 j)) (\<lambda>result_main.
     bind_err (map_result E (funding_map j) (interval_map j) ls_ratios (other_top100 j)) (\<lambda>result_other.
     bind_err (sum_volume E (top100 j @ other_top100 j)) (\<lambda>tv.
       Inr \<lparr>data = result_main, other = result_other, total_volume = tv,
            volume_change = vol_change j, ts = now\<rparr>)))"

text \<open>
  The body of the \<^verbatim>\<open>try\<close> of \<^verbatim>\<open>fetch_binance_tickers\<close>, without its last two
  lines. The batch fetcher reads the clock itself (\<open>now_ls\<close>) and may write its own cache
  entry, which stays written when a later step raises.
\<close>

definition snapshot_cycle ::
  "pyenv \<Rightarrow> upstream \<Rightarrow> real \<Rightarrow> real \<Rightarrow> cache \<Rightarrow> (error + snapshot) \<times> cache" where
  "snapshot_cycle E W now now_ls c =
     (case collect E W of
        Inl e \<Rightarrow> (Inl e, c)
      | Inr j \<Rightarrow>
          (case map_err symbol_str (top100 j @ other_top100 j) of
             Inl e \<Rightarrow> (Inl e, c)
           | Inr fetch_symbols \<Rightarrow>
               (let (ls_ratios, c1) = fetch_ls_ratio_batch E W now_ls c fetch_symbols
                in (assemble E j ls_ratios now, c1))))"

text \<open>
  What \<^verbatim>\<open>fetch_binance_tickers\<close> returns: a full snapshot, or the literal
  \<^verbatim>\<open>{"data": [], "other": []}\<close>, which has no other key.
\<close>

datatype tickers_dict = Snapshot snapshot | EmptyDefault

text \<open>\<^verbatim>\<open>_cache.get(cache_key, {"data": [], "other": []})\<close>.\<close>

definition cached_or_default :: "cache \<Rightarrow> tickers_dict" where
  "cached_or_default c = (case binance_tickers_100 c of Some s \<Rightarrow> Snapshot s | None \<Rightarrow> EmptyDefault)"

definition tickers_cache_fresh :: "cache \<Rightarrow> real \<Rightarrow> bool" where
  "tickers_cache_fresh c now =
     (case binance_tickers_100 c of None \<Rightarrow> False | Some s \<Rightarrow> now - ts s < cache_ttl)"

definition fetch_binance_tickers ::
  "pyenv \<Rightarrow> upstream \<Rightarrow> real \<Rightarrow> real \<Rightarrow> cache \<Rightarrow> tickers_dict \<times> cache" where
  "fetch_binance_tickers E W now now_ls c =
     (if tickers_cache_fresh c now then (cached_or_default c, c)
      else (case snapshot_cycle E W now now_ls c of
              (Inr final_data, c1) \<Rightarrow> (Snapshot final_data, c1\<lparr>binance_tickers_100 := Some final_data\<rparr>)
            | (Inl e, c1) \<Rightarrow> (cached_or_default c1, c1)))"

text \<open>
  \<^verbatim>\<open>JSONResponse(content=...)\<close> renders its content when it is built, with
  \<^verbatim>\<open>json.dumps(..., allow_nan=False)\<close>: a float that is infinite or NaN, anywhere in the
  content, raises \<^verbatim>\<open>ValueError\<close>. Everything else the functions below put into a
  response serialises.
\<close>

definition finite_float :: "pyfloat \<Rightarrow> bool" where
  "finite_float x = (\<not> is_inf x \<and> \<not> is_nan x)"

fun json_finite :: "json \<Rightarrow> bool" where
  "json_finite (JFloat f) = finite_float f"
| "json_finite (JList xs) = list_all json_finite xs"
| "json_finite (JObj kvs) = list_all (\<lambda>kv. json_finite (snd kv)) kvs"
| "json_finite _ = True"

definition row_finite :: "row \<Rightarrow> bool" where
  "row_finite r =
     (finite_float (price r) \<and> finite_float (change24h r) \<and> finite_float (high24h r)
      \<and> finite_float (low24h r) \<and> finite_float (volume24h r) \<and> finite_float (fundingRate r)
      \<and> json_finite (fundingInterval r)
      \<and> finite_float (ratio (lsRatio r)) \<and> finite_float (long (lsRatio r))
      \<and> finite_float (short (lsRatio r)))"

text \<open>
  The endpoint \<^verbatim>\<open>/api/binance/tickers\<close> reads the dict with defaults and builds the
  response outside any \<^verbatim>\<open>try\<close>: the \<^verbatim>\<open>ValueError\<close> of a content that does not
  serialise leaves the endpoint.
\<close>

record tickers_response =
  exchange :: string
  resp_data :: "row list"
  resp_other :: "row list"
  resp_total_volume :: pyfloat
  resp_volume_change :: pyfloat
  resp_ts :: int

definition tickers_json_response :: "tickers_response \<Rightarrow> error + tickers_response" where
  "tickers_json_response content =
     (if list_all row_finite (resp_data content) \<and> list_all row_finite (resp_other content)
         \<and> finite_float (resp_total_volume content) \<and> finite_float (resp_volume_change content)
      then Inr content else Inl ValueError)"

definition api_binance_tickers ::
  "pyenv \<Rightarrow> upstream \<Rightarrow> real \<Rightarrow> real \<Rightarrow> real \<Rightarrow> cache
   \<Rightarrow> (error + tickers_response) \<times> cache" where
  "api_binance_tickers E W now now_ls now_resp c =
     (let (data_dict, c1) = fetch_binance_tickers E W now now_ls c in
      (tickers_json_response
         \<lparr>exchange = ''Binance'',
          resp_data = (case data_dict of Snapshot s \<Rightarrow> data s | EmptyDefault \<Rightarrow> []),
          resp_other = (case data_dict of Snapshot s \<Rightarrow> other s | EmptyDefault \<Rightarrow> []),
          resp_total_volume = (case data_dict of Snapshot s \<Rightarrow> total_volume s | EmptyDefault \<Rightarrow> Finite 0),
          resp_volume_change = (case data_dict of Snapshot s \<Rightarrow> volume_change s | EmptyDefault \<Rightarrow> Finite 0),
          resp_ts = \<lfloor>now_resp * 1000\<rfloor>\<rparr>, c1))"

section \<open>Derived metrics\<close>

subsection \<open>Fear and greed\<close>

definition fng_default :: fear_greed where
  "fng_default = \<lparr>fg_value = 50, classification = JStr ''Neutral'', fg_change24h = Finite 0\<rparr>"

text \<open>
  \<^verbatim>\<open>(val_today - val_yesterday) / val_yesterday * 100\<close> on integers is a true division,
  guarded by \<^verbatim>\<open>val_yesterday > 0\<close>.
\<close>

definition fng_change :: "int \<Rightarrow> int \<Rightarrow> pyfloat" where
  "fng_change val_today val_yesterday =
     (if val_yesterday > 0
      then fmul (Finite (of_int (val_today - val_yesterday) / of_int val_yesterday)) (Finite 100)
      else Finite 0)"

definition fng_entry_value :: "pyenv \<Rightarrow> json \<Rightarrow> nat \<Rightarrow> error + int" where
  "fng_entry_value E d i = bind_err (py_index d i) (\<lambda>x. bind_err (py_item x ''value'') (py_int E))"

definition fng_entry_class :: "json \<Rightarrow> error + json" where
  "fng_entry_class d = bind_err (py_index d 0) (\<lambda>x. py_item x ''value_classification'')"

definition fng_result :: "pyenv \<Rightarrow> json \<Rightarrow> error + fear_greed" where
  "fng_result E payload =
     bind_err (py_contains ''data'' payload) (\<lambda>has.
       if has then
         bind_err (py_item payload ''data'') (\<lambda>d.
         bind_err (py_len d) (\<lambda>n.
           if n \<ge> 2 then
             bind_err (fng_entry_value E d 0) (\<lambda>val_today.
             bind_err (fng_entry_value E d 1) (\<lambda>val_yesterday.
             bind_err (fng_entry_class d) (\<lambda>cl.
               Inr \<lparr>fg_value = val_today, classification = cl,
                    fg_change24h = fng_change val_today val_yesterday\<rparr>)))
           else if n = 1 then
             bind_err (fng_entry_value E d 0) (\<lambda>v.
             bind_err (fng_entry_class d) (\<lambda>cl.
               Inr \<lparr>fg_value = v, classification = cl, fg_change24h = Finite 0\<rparr>))
           else Inr fng_default))
       else Inr fng_default)"

definition fng_cache_fresh :: "cache \<Rightarrow> real \<Rightarrow> bool" where
  "fng_cache_fresh c now = (case fear_and_greed c of None \<Rightarrow> False | Some (d, t) \<Rightarrow> now - t < 3600)"

definition fng_cached_data :: "cache \<Rightarrow> fear_greed" where
  "fng_cached_data c = (case fear_and_greed c of None \<Rightarrow> fng_default | Some (d, t) \<Rightarrow> d)"

definition fetch_fear_and_greed :: "pyenv \<Rightarrow> upstream \<Rightarrow> real \<Rightarrow> cache \<Rightarrow> fear_greed \<times> cache" where
  "fetch_fear_and_greed E W now c =
     (if fng_cache_fresh c now then (fng_cached_data c, c)
      else (case bind_err (fng W) (\<lambda>resp. bind_err (resp_json resp) (fng_result E)) of
              Inr result \<Rightarrow> (result, c\<lparr>fear_and_greed := Some (result, now)\<rparr>)
            | Inl e \<Rightarrow> (fng_cached_data c, c)))"

subsection \<open>The heuristic backtest\<close>

definition target_coins :: "string list" where
  "target_coins =
     [''BTC'', ''ETH'', ''XRP'', ''SOL'', ''BNB'', ''DOGE'', ''ADA'', ''TON'', ''TRX'', ''AVAX'',
      ''SHIB'', ''LINK'', ''DOT'', ''SUI'', ''BCH'', ''UNI'', ''PEPE'', ''LTC'', ''NEAR'', ''AAVE'', ''APT'']"

text \<open>\<^verbatim>\<open>sym.replace("USDT", "").replace("1000", "")\<close>.\<close>

definition base_coin :: "string \<Rightarrow> string" where
  "base_coin sy = py_replace ''1000'' [] (py_replace ''USDT'' [] sy)"

text \<open>The first loop: the tickers of whitelisted base coins, with the base coin.\<close>

fun filter_targets :: "json list \<Rightarrow> error + (string \<times> json) list" where
  "filter_targets [] = Inr []"
| "filter_targets (t # rest) =
     bind_err (symbol_str t) (\<lambda>sy.
     bind_err (filter_targets rest) (\<lambda>more.
       Inr (if endswith sy ''USDT'' \<and> base_coin sy \<in> set target_coins
            then (base_coin sy, t) # more
            else more)))"

text \<open>
  The second loop: one ticker for each base coin, the one with the highest quote volume
  (the first of them when several have it). The dict is kept as an association list in
  insertion order.
\<close>

fun unique_insert ::
  "pyenv \<Rightarrow> string \<Rightarrow> json \<Rightarrow> (string \<times> json) list \<Rightarrow> error + (string \<times> json) list" where
  "unique_insert E b t [] = Inr [(b, t)]"
| "unique_insert E b t ((b', t') # kvs) =
     (if b = b' then
        bind_err (float_field E t ''quoteVolume'') (\<lambda>v.
        bind_err (float_field E t' ''quoteVolume'') (\<lambda>v'.
          Inr ((b', if fgt v v' then t else t') # kvs)))
      else bind_err (unique_insert E b t kvs) (\<lambda>kvs'. Inr ((b', t') # kvs')))"

fun unique_coins ::
  "pyenv \<Rightarrow> (string \<times> json) list \<Rightarrow> (string \<times> json) list \<Rightarrow> error + (string \<times> json) list" where
  "unique_coins E [] acc = Inr acc"
| "unique_coins E ((b, t) # rest) acc = bind_err (unique_insert E b t acc) (unique_coins E rest)"

text \<open>\<^verbatim>\<open>target_coins.index(x)\<close> for an \<open>x\<close> that is in the list.\<close>

definition index_of :: "'a list \<Rightarrow> 'a \<Rightarrow> nat" where
  "index_of xs x = length (takeWhile (\<lambda>y. y \<noteq> x) xs)"

record bt_row =
  bt_rank :: nat
  bt_symbol :: string
  bt_price :: pyfloat
  volatility :: pyfloat
  bt_change24h :: pyfloat
  long_apr :: pyfloat
  short_apr :: pyfloat

text \<open>The body of the last loop, for the ticker \<open>t\<close> at index \<open>i\<close>.\<close>

definition backtest_row :: "pyenv \<Rightarrow> nat \<Rightarrow> json \<Rightarrow> error + bt_row" where
  "backtest_row E i t =
     bind_err (float_field E t ''lastPrice'') (\<lambda>p.
     bind_err (float_field E t ''highPrice'') (\<lambda>high.
     bind_err (float_field E t ''lowPrice'') (\<lambda>low.
     bind_err (float_field E t ''priceChangePercent'') (\<lambda>change.
     bind_err (if fgt low (Finite 0)
               then bind_err (fdiv (fsub high low) low) (\<lambda>q. Inr (fmul q (Finite 100)))
               else Inr (Finite 0)) (\<lambda>vola.
     bind_err (py_item t ''symbol'') (\<lambda>sv.
     bind_err (case sv of JStr sy \<Rightarrow> Inr sy | _ \<Rightarrow> Inl AttributeError) (\<lambda>sy.
       let base_apr = fmul vola (Finite 12);
           long0 = fadd base_apr (fmul change (Finite 15));
           short0 = fsub base_apr (fmul change (Finite 15))
       in Inr \<lparr>bt_rank = i + 1,
               bt_symbol = display_symbol sy,
               bt_price = p,
               volatility = vola,
               bt_change24h = change,
               long_apr = py_max (Finite (- 80)) (py_min long0 (Finite 450)),
               short_apr = py_max (Finite (- 80)) (py_min short0 (Finite 450))\<rparr>)))))))"

fun backtest_rows :: "pyenv \<Rightarrow> nat \<Rightarrow> (string \<times> json) list \<Rightarrow> error + bt_row list" where
  "backtest_rows E i [] = Inr []"
| "backtest_rows E i ((b, t) # rest) =
     bind_err (backtest_row E i t) (\<lambda>r.
     bind_err (backtest_rows E (Suc i) rest) (\<lambda>rs. Inr (r # rs)))"

definition backtest_try :: "pyenv \<Rightarrow> upstream \<Rightarrow> error + bt_row list" where
  "backtest_try E W =
     bind_err (ticker_24hr W) (\<lambda>resp.
     bind_err (resp_json resp) (\<lambda>payload.
     bind_err (py_iter payload) (\<lambda>items.
     bind_err (filter_targets items) (\<lambda>filtered_data.
     bind_err (unique_coins E filtered_data []) (\<lambda>uniq.
       backtest_rows E 0 (sort_key (\<lambda>x. index_of target_coins (fst x)) uniq))))))"

definition bt_row_finite :: "bt_row \<Rightarrow> bool" where
  "bt_row_finite r =
     (finite_float (bt_price r) \<and> finite_float (volatility r) \<and> finite_float (bt_change24h r)
      \<and> finite_float (long_apr r) \<and> finite_float (short_apr r))"

text \<open>
  The endpoint \<^verbatim>\<open>/api/grid/backtest\<close>: any exception gives the empty list. The
  response with the rows is built inside the \<^verbatim>\<open>try\<close>, so rows that do not serialise
  give the empty list too.
\<close>

definition api_grid_backtest :: "pyenv \<Rightarrow> upstream \<Rightarrow> bt_row list" where
  "api_grid_backtest E W =
     (case backtest_try E W of
        Inl e \<Rightarrow> []
      | Inr results \<Rightarrow> if list_all bt_row_finite results then results else [])"


section \<open>Specification-side notions\<close>

text \<open>
  A failed per-symbol fetch, in the words of the specification: a request exception, a
  status other than 200, or a payload that is not a non-empty list (a body that does not
  decode included).
\<close>

definition ls_fetch_failed :: "http_result \<Rightarrow> bool" where
  "ls_fetch_failed r =
     (case r of
        Inl e \<Rightarrow> True
      | Inr rsp \<Rightarrow> status_code rsp \<noteq> 200
          \<or> (case body rsp of Some (JList (d0 # rest)) \<Rightarrow> False | _ \<Rightarrow> True))"

text \<open>The items of a decoded payload, when the request returned and the body is iterable.\<close>

definition payload_items :: "http_result \<Rightarrow> error + json list" where
  "payload_items r = bind_err r (\<lambda>rsp. bind_err (resp_json rsp) py_iter)"

text \<open>
  The funding record matching a symbol: the item of the funding payload whose
  \<^verbatim>\<open>"symbol"\<close> is that symbol, the last one when there are several.
\<close>

definition matching_funding :: "json list \<Rightarrow> string \<Rightarrow> json option" where
  "matching_funding fitems sy = find (\<lambda>item. py_item item ''symbol'' = Inr (JStr sy)) (rev fitems)"

text \<open>
  Eligibility, in the words of the specification: the symbol ends with \<^verbatim>\<open>USDT\<close>, the
  quote volume exceeds 1,000,000 and the matching funding record has
  \<^verbatim>\<open>nextFundingTime > 0\<close>.
\<close>

definition eligible :: "pyenv \<Rightarrow> json list \<Rightarrow> json \<Rightarrow> bool" where
  "eligible E fitems t =
     (case symbol_str t of
        Inr sy \<Rightarrow>
          endswith sy ''USDT''
          \<and> (case float_field E t ''quoteVolume'' of
                Inr v \<Rightarrow> fgt v (Finite 1000000)
              | Inl e \<Rightarrow> False)
          \<and> (case matching_funding fitems sy of
                Some f \<Rightarrow> bind_err (py_get f ''nextFundingTime'' (JInt 0)) py_gt0 = Inr True
              | None \<Rightarrow> False)
      | Inl e \<Rightarrow> False)"

text \<open>The funding rate of a ticker: \<^verbatim>\<open>lastFundingRate\<close> of its funding record, as a float.\<close>

definition funding_rate_of :: "pyenv \<Rightarrow> json list \<Rightarrow> json \<Rightarrow> error + pyfloat" where
  "funding_rate_of E fitems t =
     bind_err (symbol_str t) (\<lambda>sy.
       case matching_funding fitems sy of
         Some f \<Rightarrow> float_field E f ''lastFundingRate''
       | None \<Rightarrow> Inr (Finite 0))"

text \<open>
  A row of the snapshot is the row of a ticker: it shows the ticker's symbol, its quote
  volume and its 24h change.
\<close>

definition row_of :: "pyenv \<Rightarrow> json \<Rightarrow> row \<Rightarrow> bool" where
  "row_of E t r =
     ((case symbol_str t of Inr sy \<Rightarrow> symbol r = display_symbol sy | Inl e \<Rightarrow> False)
      \<and> float_field E t ''quoteVolume'' = Inr (volume24h r)
      \<and> float_field E t ''priceChangePercent'' = Inr (change24h r))"

text \<open>A ticker is listed in a list of rows when one of the rows is its row.\<close>

definition listed :: "pyenv \<Rightarrow> json \<Rightarrow> row list \<Rightarrow> bool" where
  "listed E t rows = (\<exists>r \<in> set rows. row_of E t r)"

text \<open>
  Where the specification puts an eligible ticker: in \<open>other\<close> when its funding rate is
  exactly \<open>0.0\<close>, in \<open>main\<close> when it is not.
\<close>

definition in_main :: "pyenv \<Rightarrow> json list \<Rightarrow> json \<Rightarrow> bool" where
  "in_main E fitems t =
     (eligible E fitems t
      \<and> (case funding_rate_of E fitems t of Inr r \<Rightarrow> \<not> feq r (Finite 0) | Inl e \<Rightarrow> False))"

definition in_other :: "pyenv \<Rightarrow> json list \<Rightarrow> json \<Rightarrow> bool" where
  "in_other E fitems t =
     (eligible E fitems t
      \<and> (case funding_rate_of E fitems t of Inr r \<Rightarrow> feq r (Finite 0) | Inl e \<Rightarrow> False))"

text \<open>
  The backtest formulas of the specification. \<open>clamp x lo hi\<close> is \<open>x\<close> brought into
  \<open>[lo, hi]\<close>, both bounds included.
\<close>

definition clamp :: "pyfloat \<Rightarrow> pyfloat \<Rightarrow> pyfloat \<Rightarrow> pyfloat" where
  "clamp x lo hi = (if flt x lo then lo else if fgt x hi then hi else x)"

definition spec_volatility :: "pyfloat \<Rightarrow> pyfloat \<Rightarrow> pyfloat" where
  "spec_volatility high low =
     (if fgt low (Finite 0)
      then (case fdiv (fsub high low) low of Inr q \<Rightarrow> fmul q (Finite 100) | Inl e \<Rightarrow> NaN)
      else Finite 0)"

definition spec_long_apr :: "pyfloat \<Rightarrow> pyfloat \<Rightarrow> pyfloat \<Rightarrow> pyfloat" where
  "spec_long_apr high low change =
     fadd (fmul (spec_volatility high low) (Finite 12)) (fmul change (Finite 15))"

definition spec_short_apr :: "pyfloat \<Rightarrow> pyfloat \<Rightarrow> pyfloat \<Rightarrow> pyfloat" where
  "spec_short_apr high low change =
     fsub (fmul (spec_volatility high low) (Finite 12)) (fmul change (Finite 15))"

section \<open>Example payloads\<close>

text \<open>
  Python's \<^verbatim>\<open>float\<close> and \<^verbatim>\<open>int\<close> on the strings of the examples.
\<close>

definition ex_env :: pyenv where
  "ex_env = \<lparr>float_of_str = map_of
       [(''2000000'', Finite 2000000), (''500000'', Finite 500000), (''3000000'', Finite 3000000),
        (''5'', Finite 5), (''3'', Finite 3), (''-1'', Finite (- 1)),
        (''0.0001'', Finite 0.0001), (''0.0'', Finite 0), (''0.0002'', Finite 0.0002),
        (''-0.0002'', Finite (- 0.0002)),
        (''1.25'', Finite 1.25), (''0.5556'', Finite 0.5556), (''0.4444'', Finite 0.4444),
        (''inf'', PosInf), (''nan'', NaN),
        (''105'', Finite 105), (''110'', Finite 110), (''100'', Finite 100), (''150'', Finite 150)],
     int_of_str = map_of [(''70'', 70), (''50'', 50), (''0'', 0), (''10'', 10)]\<rparr>"

definition ok_response :: "json \<Rightarrow> http_result" where
  "ok_response v = Inr \<lparr>status_code = 200, body = Some v\<rparr>"

definition ex_ls_payload :: "string \<Rightarrow> json" where
  "ex_ls_payload r = JList [JObj [(''longShortRatio'', JStr r), (''longAccount'', JStr ''0.5556''),
                                 (''shortAccount'', JStr ''0.4444'')]]"

definition ex_ls_endpoint :: "string \<Rightarrow> http_result" where
  "ex_ls_endpoint s =
     (if s = ''BTCUSDT'' then ok_response (ex_ls_payload ''1.25'')
      else if s = ''ETHUSDT'' then ok_response (ex_ls_payload ''inf'')
      else if s = ''SOLUSDT'' then ok_response (ex_ls_payload ''nan'')
      else if s = ''XRPUSDT'' then Inr \<lparr>status_code = 429, body = Some (JObj [])\<rparr>
      else if s = ''ADAUSDT'' then ok_response (JList [])
      else Inl RequestError)"

definition ex_ticker :: "string \<Rightarrow> string \<Rightarrow> string \<Rightarrow> json" where
  "ex_ticker s vol chg =
     JObj [(''symbol'', JStr s), (''quoteVolume'', JStr vol), (''priceChangePercent'', JStr chg)]"

definition ex_funding :: "string \<Rightarrow> string \<Rightarrow> int \<Rightarrow> json" where
  "ex_funding s rate nft =
     JObj [(''symbol'', JStr s), (''lastFundingRate'', JStr rate), (''nextFundingTime'', JInt nft)]"

definition ex_world :: "json list \<Rightarrow> json list \<Rightarrow> http_result \<Rightarrow> upstream" where
  "ex_world tickers fundings k =
     \<lparr>ticker_24hr = ok_response (JList tickers), premium_index = ok_response (JList fundings),
      funding_info = ok_response (JList []), klines = k,
      long_short_ratio = ex_ls_endpoint, ls_client_failure = False, fng = Inl RequestError\<rparr>"

text \<open>The scenario of the specification.\<close>

definition scenario_tickers :: "json list" where
  "scenario_tickers =
     [ex_ticker ''BTCUSDT'' ''2000000'' ''5'', ex_ticker ''ETHUSDT'' ''500000'' ''3'',
      ex_ticker ''SOLUSDT'' ''3000000'' ''-1'']"

definition scenario_fundings :: "json list" where
  "scenario_fundings =
     [ex_funding ''BTCUSDT'' ''0.0001'' 100, ex_funding ''ETHUSDT'' ''0.0'' 200,
      ex_funding ''SOLUSDT'' ''0.0002'' 0]"

text \<open>
  Four eligible tickers with the funding rates \<open>0.0001\<close>, \<open>0.0\<close>, \<open>-0.0002\<close>, \<open>0.0\<close>;
  the two of rate zero have the same 24h change.
\<close>

definition rates_tickers :: "json list" where
  "rates_tickers =
     [ex_ticker ''BTCUSDT'' ''2000000'' ''-1'', ex_ticker ''ETHUSDT'' ''3000000'' ''3'',
      ex_ticker ''SOLUSDT'' ''2000000'' ''5'', ex_ticker ''XRPUSDT'' ''3000000'' ''3'']"

definition rates_fundings :: "json list" where
  "rates_fundings =
     [ex_funding ''BTCUSDT'' ''0.0001'' 100, ex_funding ''ETHUSDT'' ''0.0'' 100,
      ex_funding ''SOLUSDT'' ''-0.0002'' 100, ex_funding ''XRPUSDT'' ''0.0'' 100]"

text \<open>The snapshots these payloads give at time \<open>1000\<close>.\<close>

definition ex_ls :: "real \<Rightarrow> ls_entry" where
  "ex_ls r = \<lparr>ratio = Finite r, long = Finite 55.56, short = Finite 44.44\<rparr>"

definition ex_row :: "nat \<Rightarrow> string \<Rightarrow> real \<Rightarrow> real \<Rightarrow> real \<Rightarrow> ls_entry \<Rightarrow> row" where
  "ex_row n s chg vol rate ls =
     \<lparr>rank = n, symbol = s, price = Finite 0, change24h = Finite chg, high24h = Finite 0,
      low24h = Finite 0, volume24h = Finite vol, trades = 0, fundingRate = Finite rate,
      nextFundingTime = 100, fundingInterval = JInt 8, lsRatio = ls\<rparr>"

definition scenario_snapshot :: snapshot where
  "scenario_snapshot =
     \<lparr>data = [ex_row 1 ''BTC/USDT'' 5 2000000 0.0001 (ex_ls 1.25)], other = [],
      total_volume = Finite 2000000, volume_change = Finite 0, ts = 1000\<rparr>"

definition rates_snapshot :: snapshot where
  "rates_snapshot =
     \<lparr>data = [ex_row 1 ''SOL/USDT'' 5 2000000 (- 0.0002) (ex_ls 9999),
              ex_row 2 ''BTC/USDT'' (- 1) 2000000 0.0001 (ex_ls 1.25)],
      other = [ex_row 1 ''ETH/USDT'' 3 3000000 0 (ex_ls 9999),
               ex_row 2 ''XRP/USDT'' 3 3000000 0 ls_default],
      total_volume = Finite 10000000, volume_change = Finite 0, ts = 1000\<rparr>"

definition ex_down :: upstream where
  "ex_down = \<lparr>ticker_24hr = Inl RequestError, premium_index = Inl RequestError,
     funding_info = Inl RequestError, klines = Inl RequestError,
     long_short_ratio = ex_ls_endpoint, ls_client_failure = False, fng = Inl RequestError\<rparr>"

definition cold_cache :: cache where
  "cold_cache = \<lparr>ls_ratio_batch = None, binance_tickers_100 = None, fear_and_greed = None\<rparr>"


text \<open>The sentiment index of two days, and a payload of the backtest.\<close>

definition ex_fng_world :: "string \<Rightarrow> string \<Rightarrow> upstream" where
  "ex_fng_world today yesterday =
     ex_down\<lparr>fng := ok_response (JObj [(''name'', JStr ''Fear and Greed Index''),
       (''data'', JList
          [JObj [(''value'', JStr today), (''value_classification'', JStr ''Greed'')],
           JObj [(''value'', JStr yesterday), (''value_classification'', JStr ''Neutral'')]])])\<rparr>"

definition ex_bt_ticker :: "string \<Rightarrow> string \<Rightarrow> string \<Rightarrow> string \<Rightarrow> json" where
  "ex_bt_ticker s high low chg =
     JObj [(''symbol'', JStr s), (''lastPrice'', JStr ''105''), (''highPrice'', JStr high),
           (''lowPrice'', JStr low), (''priceChangePercent'', JStr chg),
           (''quoteVolume'', JStr ''2000000'')]"

definition ex_bt_world :: upstream where
  "ex_bt_world =
     ex_down\<lparr>ticker_24hr := ok_response (JList
       [ex_bt_ticker ''ETHUSDT'' ''150'' ''100'' ''5'', ex_bt_ticker ''BTCUSDT'' ''110'' ''100'' ''5'',
        ex_bt_ticker ''FOOUSDT'' ''110'' ''100'' ''5''])\<rparr>"

definition ex_old_snapshot :: snapshot where
  "ex_old_snapshot = \<lparr>data = [], other = [], total_volume = Finite 7, volume_change = Finite 1, ts = 0\<rparr>"

definition ex_stale_cache :: cache where
  "ex_stale_cache =
     \<lparr>ls_ratio_batch = Some ([(''BTCUSDT'', \<lparr>ratio = Finite 2, long = Finite 60, short = Finite 40\<rparr>)], 0),
      binance_tickers_100 = Some ex_old_snapshot, fear_and_greed = None\<rparr>"

text \<open>A cached snapshot with a row whose 24h change is NaN.\<close>

definition ex_nan_snapshot :: snapshot where
  "ex_nan_snapshot =
     \<lparr>data = [(ex_row 1 ''BTC/USDT'' 5 2000000 0.0001 (ex_ls 1.25))\<lparr>change24h := NaN\<rparr>], other = [],
      total_volume = Finite 2000000, volume_change = Finite 0, ts = 0\<rparr>"

definition ex_nan_cache :: cache where
  "ex_nan_cache = \<lparr>ls_ratio_batch = None, binance_tickers_100 = Some ex_nan_snapshot, fear_and_greed = None\<rparr>"

section \<open>Properties\<close>

subsection \<open>Sequencing\<close>

lemma bind_err_Inl [simp]: "bind_err (Inl e) f = Inl e"
  by (simp add: bind_err_def)

lemma bind_err_Inr [simp]: "bind_err (Inr x) f = f x"
  by (simp add: bind_err_def)

lemma bind_err_eq_Inr: "bind_err m f = Inr y \<longleftrightarrow> (\<exists>x. m = Inr x \<and> f x = Inr y)"
  by (cases m) simp_all

subsection \<open>The batch fetcher\<close>

lemma gather_ls_apply:
  "map_of (gather_ls E f ss m) s =
     (if s \<in> set ss then (case fetch_single E (f s) of None \<Rightarrow> map_of m s | Some e \<Rightarrow> Some e)
      else map_of m s)"
  by (induction ss arbitrary: m) (auto simp: update_conv' split: option.splits)

lemma gather_ls_all_failed:
  "\<forall>s \<in> set ss. fetch_single E (f s) = None \<Longrightarrow> gather_ls E f ss m = m"
  by (induction ss arbitrary: m) simp_all

lemma gather_ls_empty:
  "map_of (gather_ls E f ss []) s = (if s \<in> set ss then fetch_single E (f s) else None)"
  by (simp add: gather_ls_apply split: option.splits)

lemma fetch_single_SomeD:
  assumes "fetch_single E r = Some e"
  shows "\<exists>rsp d0 rest x. r = Inr rsp \<and> status_code rsp = 200 \<and> body rsp = Some (JList (d0 # rest))
           \<and> float_field E d0 ''longShortRatio'' = Inr x
           \<and> ratio e = (if is_inf x \<or> is_nan x then Finite 9999 else x)"
  using assms
  by (auto simp: fetch_single_def fetch_single_try_def resp_json_def float_field_def
      sanitize_ratio_def bind_err_eq_Inr
      split: sum.splits if_splits option.splits json.splits list.splits)

lemma fetch_single_failed: "ls_fetch_failed r \<Longrightarrow> fetch_single E r = None"
  by (auto simp: ls_fetch_failed_def fetch_single_def fetch_single_try_def resp_json_def
      split: sum.splits option.splits json.splits list.splits)

lemma batch_run:
  assumes "\<not> ls_cache_fresh c now" "\<not> ls_client_failure W"
  shows "fst (fetch_ls_ratio_batch E W now c symbols) = gather_ls E (long_short_ratio W) symbols []"
  using assms by (simp add: fetch_ls_ratio_batch_def Let_def)

lemmas ex_ls_simps = fetch_ls_ratio_batch_def ls_cache_fresh_def cold_cache_def ex_down_def
  ex_stale_cache_def Let_def fetch_single_def fetch_single_try_def ex_ls_endpoint_def
  ok_response_def ex_ls_payload_def resp_json_def ex_env_def sanitize_ratio_def is_inf_def
  is_nan_def float_field_def

text \<open>
  C6. When the batch runs, every entry of its result comes from a response of status 200
  whose payload is a non-empty list, and its ratio is the parsed \<^verbatim>\<open>longShortRatio\<close> of
  the first element if that is finite and exactly \<open>9999.0\<close> if it is infinite or NaN. So no
  stored ratio is infinite or NaN, and the map returned is the one written to the cache.
\<close>

theorem ratio_sentinel:
  assumes "\<not> ls_cache_fresh c now" and "\<not> ls_client_failure W"
    and "fetch_ls_ratio_batch E W now c symbols = (result, c')"
    and "map_of result s = Some e"
  shows "(\<exists>rsp d0 rest x. long_short_ratio W s = Inr rsp \<and> body rsp = Some (JList (d0 # rest))
            \<and> float_field E d0 ''longShortRatio'' = Inr x
            \<and> ratio e = (if is_inf x \<or> is_nan x then Finite 9999 else x))
         \<and> \<not> is_inf (ratio e) \<and> \<not> is_nan (ratio e)
         \<and> ls_ratio_batch c' = Some (result, now)"
proof -
  have res: "result = gather_ls E (long_short_ratio W) symbols []"
    using batch_run [OF assms(1,2), of E symbols] assms(3) by simp
  with assms(4) have fs: "fetch_single E (long_short_ratio W s) = Some e"
    by (simp add: gather_ls_empty split: if_splits)
  from fetch_single_SomeD [OF fs] obtain rsp d0 rest x where
    x: "long_short_ratio W s = Inr rsp" "body rsp = Some (JList (d0 # rest))"
       "float_field E d0 ''longShortRatio'' = Inr x"
       "ratio e = (if is_inf x \<or> is_nan x then Finite 9999 else x)"
    by blast
  have fin: "\<not> is_inf (ratio e) \<and> \<not> is_nan (ratio e)"
    using x(4) by (simp add: is_inf_def is_nan_def)
  have ne: "result \<noteq> []"
    using assms(4) by auto
  have "ls_ratio_batch c' = Some (result, now)"
    using assms(1,2,3) ne res by (auto simp: fetch_ls_ratio_batch_def Let_def)
  with x fin show ?thesis by blast
qed

text \<open>
  The exchange answers \<^verbatim>\<open>inf\<close> for ETHUSDT, \<^verbatim>\<open>nan\<close> for SOLUSDT and \<^verbatim>\<open>1.25\<close> for
  BTCUSDT: the first two are stored as \<open>9999\<close>, the third as it is.
\<close>

theorem ratio_sentinel_witness:
  "\<not> ls_cache_fresh cold_cache 1000 \<and> \<not> ls_client_failure ex_down
   \<and> float_field ex_env (JObj [(''longShortRatio'', JStr ''inf'')]) ''longShortRatio'' = Inr PosInf
   \<and> map (\<lambda>(s, e). (s, ratio e))
        (fst (fetch_ls_ratio_batch ex_env ex_down 1000 cold_cache [''BTCUSDT'', ''ETHUSDT'', ''SOLUSDT'']))
       = [(''BTCUSDT'', Finite 1.25), (''ETHUSDT'', Finite 9999), (''SOLUSDT'', Finite 9999)]
   \<and> map_option snd (ls_ratio_batch
        (snd (fetch_ls_ratio_batch ex_env ex_down 1000 cold_cache [''BTCUSDT'', ''ETHUSDT'', ''SOLUSDT''])))
       = Some 1000"
  using ratio_sentinel [of cold_cache 1000 ex_down ex_env "[''BTCUSDT'', ''ETHUSDT'', ''SOLUSDT'']"
      "fst (fetch_ls_ratio_batch ex_env ex_down 1000 cold_cache [''BTCUSDT'', ''ETHUSDT'', ''SOLUSDT''])"
      "snd (fetch_ls_ratio_batch ex_env ex_down 1000 cold_cache [''BTCUSDT'', ''ETHUSDT'', ''SOLUSDT''])"
      "''ETHUSDT''" "\<lparr>ratio = Finite 9999, long = Finite 55.56, short = Finite 44.44\<rparr>"]
  by (simp add: ex_ls_simps)

text \<open>
  C7. When the batch runs, a symbol whose request raised, whose status is not 200 or whose
  payload is not a non-empty list has no entry in the result; what the result holds for
  any other symbol is what that symbol's own response gives, so the batch is not failed
  and no other symbol is affected.
\<close>

theorem failed_symbol_omitted:
  assumes "ls_fetch_failed (long_short_ratio W s)"
    and "\<not> ls_cache_fresh c now" and "\<not> ls_client_failure W"
  shows "map_of (fst (fetch_ls_ratio_batch E W now c symbols)) s = None
         \<and> (\<forall>s'. s' \<noteq> s \<longrightarrow> map_of (fst (fetch_ls_ratio_batch E W now c symbols)) s'
               = (if s' \<in> set symbols then fetch_single E (long_short_ratio W s') else None))"
  using assms by (simp add: batch_run gather_ls_empty fetch_single_failed)

theorem failed_symbol_omitted_witness:
  "ls_fetch_failed (long_short_ratio ex_down ''XRPUSDT'')
   \<and> \<not> ls_cache_fresh cold_cache 1000 \<and> \<not> ls_client_failure ex_down
   \<and> map_of (fst (fetch_ls_ratio_batch ex_env ex_down 1000 cold_cache [''BTCUSDT'', ''XRPUSDT''])) ''XRPUSDT'' = None
   \<and> map_of (fst (fetch_ls_ratio_batch ex_env ex_down 1000 cold_cache [''BTCUSDT'', ''XRPUSDT''])) ''BTCUSDT''
       = Some \<lparr>ratio = Finite 1.25, long = Finite 55.56, short = Finite 44.44\<rparr>"
  using failed_symbol_omitted [of ex_down "''XRPUSDT''" cold_cache 1000 ex_env "[''BTCUSDT'', ''XRPUSDT'']"]
  by (simp add: ex_ls_simps ls_fetch_failed_def)

text \<open>
  C10. A batch that runs changes the cache only by writing its non-empty result with the
  time of the call. When every per-symbol fetch fails, the cache is left as it was, and,
  the entry (if any) being as stale as before, a later call does not find it fresh: it
  runs the batch again.
\<close>

theorem all_failed_batch_keeps_cache:
  assumes "\<not> ls_cache_fresh c now"
    and "fetch_ls_ratio_batch E W now c symbols = (result, c')"
  shows "(ls_ratio_batch c' \<noteq> ls_ratio_batch c
            \<longrightarrow> result \<noteq> [] \<and> ls_ratio_batch c' = Some (result, now))
         \<and> ((\<forall>s \<in> set symbols. fetch_single E (long_short_ratio W s) = None)
            \<longrightarrow> c' = c \<and> (\<forall>now'. now \<le> now' \<longrightarrow> \<not> ls_cache_fresh c' now'))"
proof -
  have wr: "ls_ratio_batch c' \<noteq> ls_ratio_batch c
            \<longrightarrow> result \<noteq> [] \<and> ls_ratio_batch c' = Some (result, now)"
    using assms by (auto simp: fetch_ls_ratio_batch_def Let_def split: if_splits)
  have stale: "\<not> ls_cache_fresh c now'" if "now \<le> now'" for now'
    using assms(1) that by (auto simp: ls_cache_fresh_def split: option.splits)
  have "c' = c" if "\<forall>s \<in> set symbols. fetch_single E (long_short_ratio W s) = None"
  proof -
    have "gather_ls E (long_short_ratio W) symbols [] = []"
      using that by (simp add: gather_ls_all_failed)
    then show ?thesis
      using assms by (auto simp: fetch_ls_ratio_batch_def Let_def split: if_splits)
  qed
  with wr stale show ?thesis by blast
qed

text \<open>
  A stale entry of time \<open>0\<close>, a batch at time \<open>1000\<close> in which XRPUSDT answers 429 and
  ADAUSDT an empty list: the entry and its time stay, and at \<open>1001\<close> it is still stale.
\<close>

theorem all_failed_batch_keeps_cache_witness:
  "\<not> ls_cache_fresh ex_stale_cache 1000
   \<and> fetch_single ex_env (long_short_ratio ex_down ''XRPUSDT'') = None
   \<and> fetch_single ex_env (long_short_ratio ex_down ''ADAUSDT'') = None
   \<and> fetch_ls_ratio_batch ex_env ex_down 1000 ex_stale_cache [''XRPUSDT'', ''ADAUSDT''] = ([], ex_stale_cache)
   \<and> \<not> ls_cache_fresh ex_stale_cache 1001"
  using all_failed_batch_keeps_cache [of ex_stale_cache 1000 ex_env ex_down "[''XRPUSDT'', ''ADAUSDT'']"
      "fst (fetch_ls_ratio_batch ex_env ex_down 1000 ex_stale_cache [''XRPUSDT'', ''ADAUSDT''])"
      "snd (fetch_ls_ratio_batch ex_env ex_down 1000 ex_stale_cache [''XRPUSDT'', ''ADAUSDT''])"]
  by (simp add: ex_ls_simps)


subsection \<open>Failure of a refresh cycle\<close>



lemma gather4_Inl:
  assumes "a = Inl e \<or> b = Inl e \<or> c = Inl e \<or> d = Inl e"
  shows "\<exists>e'. gather4 a b c d = Inl e'"
  using assms by (cases a; cases b; cases c; cases d) (auto simp: gather4_def)

lemma collect_request_raised:
  assumes "ticker_24hr W = Inl e \<or> premium_index W = Inl e \<or> funding_info W = Inl e \<or> klines W = Inl e"
  shows "\<exists>e'. collect E W = Inl e'"
  using gather4_Inl [OF assms] by (auto simp: collect_def)




text \<open>
  The fallback is about \<^verbatim>\<open>fetch_binance_tickers\<close>. The endpoint serialises what it gets
  outside any handler: a cached snapshot with a float that is infinite or NaN comes back
  from the fetch unchanged, and the endpoint raises on it, as it did when it was fresh.
\<close>

lemma endpoint_raises_on_nan_snapshot:
  "fst (fetch_binance_tickers ex_env ex_down 1000 1000 ex_nan_cache) = Snapshot ex_nan_snapshot
   \<and> fst (api_binance_tickers ex_env ex_down 1000 1000 1001 ex_nan_cache) = Inl ValueError"
  by (simp add: tickers_cache_fresh_def ex_nan_cache_def ex_nan_snapshot_def cache_ttl_def
      snapshot_cycle_def collect_def gather4_def ex_down_def ex_row_def ex_ls_def
      api_binance_tickers_def fetch_binance_tickers_def cached_or_default_def
      tickers_json_response_def row_finite_def finite_float_def is_inf_def is_nan_def)

text \<open>
  C2, as amended. The four requests are joined by one \<^verbatim>\<open>gather\<close> that raises as soon
  as one of them raises: when the cached snapshot is not fresh and any one of the four
  requests raises, the cycle is abandoned, whatever the other three returned; the cached
  snapshot (or the default) is returned and the cache is left as it was.
\<close>

theorem request_failure_abandons_cycle:
  assumes "\<not> tickers_cache_fresh c now"
    and "ticker_24hr W = Inl e \<or> premium_index W = Inl e \<or> funding_info W = Inl e \<or> klines W = Inl e"
  shows "fetch_binance_tickers E W now now_ls c = (cached_or_default c, c)"
proof -
  obtain e' where "collect E W = Inl e'"
    using collect_request_raised [OF assms(2)] by blast
  then show ?thesis
    using assms(1) by (simp add: fetch_binance_tickers_def snapshot_cycle_def)
qed


subsection \<open>Evaluation of the examples\<close>

lemmas ex_simps = ex_env_def ok_response_def ex_ls_payload_def ex_ls_endpoint_def ex_ticker_def
  ex_funding_def ex_world_def scenario_tickers_def scenario_fundings_def cold_cache_def

lemmas run_simps = api_binance_tickers_def tickers_json_response_def row_finite_def
  finite_float_def fetch_binance_tickers_def tickers_cache_fresh_def
  cached_or_default_def snapshot_cycle_def
  collect_def gather4_def resp_json_def calc_vol_change_def funding_lookup_def place_def
  py_sort_desc_def sort_desc_def change_key_def symbol_str_def float_field_def int_field_def
  ls_default_def result_row_def map_result_def sum_volume_def assemble_def display_symbol_def
  fetch_ls_ratio_batch_def ls_cache_fresh_def ls_cached_data_def fetch_single_def fetch_single_try_def
  sanitize_ratio_def is_inf_def is_nan_def endswith_def feq_def is_dict_def Let_def

text \<open>
  C2 as stated fails. The tickers, the funding index and the funding intervals are
  fetched, and with the candles too the snapshot lists BTC/USDT; with the request for the
  candles raising, nothing of the three fresh payloads is in what is returned.
\<close>

theorem partial_failure_counterexample:
  "ticker_24hr (ex_world scenario_tickers scenario_fundings (Inl RequestError)) = ok_response (JList scenario_tickers)
   \<and> premium_index (ex_world scenario_tickers scenario_fundings (Inl RequestError)) = ok_response (JList scenario_fundings)
   \<and> funding_info (ex_world scenario_tickers scenario_fundings (Inl RequestError)) = ok_response (JList [])
   \<and> klines (ex_world scenario_tickers scenario_fundings (Inl RequestError)) = Inl RequestError
   \<and> map_sum id (\<lambda>r. map symbol (resp_data r)) (fst (api_binance_tickers ex_env
        (ex_world scenario_tickers scenario_fundings (ok_response (JList []))) 1000 1000 1000 cold_cache))
       = Inr [''BTC/USDT'']
   \<and> fetch_binance_tickers ex_env (ex_world scenario_tickers scenario_fundings (Inl RequestError))
        1000 1000 cold_cache = (EmptyDefault, cold_cache)
   \<and> map_sum id resp_data (fst (api_binance_tickers ex_env
        (ex_world scenario_tickers scenario_fundings (Inl RequestError)) 1000 1000 1000 cold_cache)) = Inr []"
  by (simp add: ex_simps run_simps)

text \<open>The same failing request over a stale cache: the old snapshot comes back.\<close>

theorem request_failure_abandons_cycle_witness:
  "\<not> tickers_cache_fresh ex_stale_cache 1000
   \<and> klines (ex_world scenario_tickers scenario_fundings (Inl RequestError)) = Inl RequestError
   \<and> fetch_binance_tickers ex_env (ex_world scenario_tickers scenario_fundings (Inl RequestError))
        1000 1000 ex_stale_cache = (Snapshot ex_old_snapshot, ex_stale_cache)"
  using request_failure_abandons_cycle [of ex_stale_cache 1000
      "ex_world scenario_tickers scenario_fundings (Inl RequestError)" RequestError ex_env 1000]
  by (simp add: tickers_cache_fresh_def ex_stale_cache_def ex_old_snapshot_def cache_ttl_def
      cached_or_default_def ex_world_def)


subsection \<open>Fear and greed\<close>

lemma fng_fresh_result:
  assumes "\<not> fng_cache_fresh c now"
    and "bind_err (fng W) resp_json = Inr p"
    and "fng_result E p = Inr r"
  shows "fst (fetch_fear_and_greed E W now c) = r"
  using assms by (cases "fng W") (auto simp: fetch_fear_and_greed_def)

lemma py_item_contains: "py_item p k = Inr d \<Longrightarrow> py_contains k p = Inr True"
  by (cases p) (auto split: option.splits dest!: map_of_SomeD intro: rev_image_eqI)

text \<open>
  C8. The sentiment index is an integer from 0 to 100. On a call that fetches it (a call
  served from the cache fetches nothing), with a payload whose \<^verbatim>\<open>data\<close> has at least two
  entries of values \<open>today\<close> and \<open>yesterday \<ge> 0\<close>, the change returned is
  \<open>(today - yesterday) / yesterday * 100\<close> when \<open>yesterday \<noteq> 0\<close> and \<open>0.0\<close> when
  \<open>yesterday = 0\<close>; with exactly one entry it is \<open>0.0\<close>.
\<close>

theorem fng_change_formula:
  assumes "\<not> fng_cache_fresh c now"
    and "bind_err (fng W) resp_json = Inr p"
    and "py_item p ''data'' = Inr d" and "py_len d = Inr n"
    and "fng_entry_value E d 0 = Inr today" and "fng_entry_class d = Inr cl"
  shows "(n \<ge> 2 \<longrightarrow> (\<forall>yesterday. fng_entry_value E d 1 = Inr yesterday \<longrightarrow> 0 \<le> yesterday \<longrightarrow>
            fg_change24h (fst (fetch_fear_and_greed E W now c))
              = (if yesterday \<noteq> 0
                 then Finite (of_int (today - yesterday) / of_int yesterday * 100)
                 else Finite 0)))
         \<and> (n = 1 \<longrightarrow> fg_change24h (fst (fetch_fear_and_greed E W now c)) = Finite 0)"
proof (intro conjI impI allI)
  fix yesterday
  assume n: "2 \<le> n" and y: "fng_entry_value E d 1 = Inr yesterday" and pos: "0 \<le> yesterday"
  have "fng_result E p = Inr \<lparr>fg_value = today, classification = cl,
          fg_change24h = fng_change today yesterday\<rparr>"
    using assms(3-6) n y by (simp add: fng_result_def py_item_contains)
  from fng_fresh_result [OF assms(1,2) this] pos
  show "fg_change24h (fst (fetch_fear_and_greed E W now c))
          = (if yesterday \<noteq> 0 then Finite (of_int (today - yesterday) / of_int yesterday * 100)
             else Finite 0)"
    by (simp add: fng_change_def)
next
  assume n: "n = 1"
  have "fng_result E p = Inr \<lparr>fg_value = today, classification = cl, fg_change24h = Finite 0\<rparr>"
    using assms(3-6) n by (simp add: fng_result_def py_item_contains)
  from fng_fresh_result [OF assms(1,2) this]
  show "fg_change24h (fst (fetch_fear_and_greed E W now c)) = Finite 0"
    by simp
qed

lemmas ex_fng_simps = ex_fng_world_def ex_down_def ok_response_def cold_cache_def ex_env_def
  fetch_fear_and_greed_def fng_cache_fresh_def fng_cached_data_def fng_result_def
  fng_entry_value_def fng_entry_class_def fng_change_def resp_json_def

text \<open>Today \<open>70\<close>, yesterday \<open>50\<close>: the change is \<open>40\<close>. Yesterday \<open>0\<close>: the change is \<open>0\<close>.\<close>

theorem fng_change_formula_witness:
  "\<not> fng_cache_fresh cold_cache 1000
   \<and> py_len (JList
       [JObj [(''value'', JStr ''70''), (''value_classification'', JStr ''Greed'')],
        JObj [(''value'', JStr ''50''), (''value_classification'', JStr ''Neutral'')]]) = Inr 2
   \<and> fng_entry_value ex_env (JList
       [JObj [(''value'', JStr ''70''), (''value_classification'', JStr ''Greed'')],
        JObj [(''value'', JStr ''50''), (''value_classification'', JStr ''Neutral'')]]) 1 = Inr 50
   \<and> fg_change24h (fst (fetch_fear_and_greed ex_env (ex_fng_world ''70'' ''50'') 1000 cold_cache)) = Finite 40
   \<and> fng_entry_value ex_env (JList
       [JObj [(''value'', JStr ''70''), (''value_classification'', JStr ''Greed'')],
        JObj [(''value'', JStr ''0''), (''value_classification'', JStr ''Neutral'')]]) 1 = Inr 0
   \<and> fg_change24h (fst (fetch_fear_and_greed ex_env (ex_fng_world ''70'' ''0'') 1000 cold_cache)) = Finite 0"
  using fng_change_formula [of cold_cache 1000 "ex_fng_world ''70'' ''50''"
      "JObj [(''name'', JStr ''Fear and Greed Index''),
       (''data'', JList
          [JObj [(''value'', JStr ''70''), (''value_classification'', JStr ''Greed'')],
           JObj [(''value'', JStr ''50''), (''value_classification'', JStr ''Neutral'')]])]"
      "JList
          [JObj [(''value'', JStr ''70''), (''value_classification'', JStr ''Greed'')],
           JObj [(''value'', JStr ''50''), (''value_classification'', JStr ''Neutral'')]]"
      2 ex_env 70 "JStr ''Greed''"]
    fng_change_formula [of cold_cache 1000 "ex_fng_world ''70'' ''0''"
      "JObj [(''name'', JStr ''Fear and Greed Index''),
       (''data'', JList
          [JObj [(''value'', JStr ''70''), (''value_classification'', JStr ''Greed'')],
           JObj [(''value'', JStr ''0''), (''value_classification'', JStr ''Neutral'')]])]"
      "JList
          [JObj [(''value'', JStr ''70''), (''value_classification'', JStr ''Greed'')],
           JObj [(''value'', JStr ''0''), (''value_classification'', JStr ''Neutral'')]]"
      2 ex_env 70 "JStr ''Greed''"]
  by (simp add: ex_fng_simps)

subsection \<open>The heuristic backtest\<close>

lemma clamp_py: "\<not> is_nan x \<Longrightarrow> py_max (Finite (- 80)) (py_min x (Finite 450)) = clamp x (Finite (- 80)) (Finite 450)"
  by (cases x) (auto simp: py_max_def py_min_def clamp_def flt_def is_nan_def)

lemma backtest_row_metrics:
  assumes "backtest_row E i t = Inr r"
  shows "\<exists>high low change.
           float_field E t ''highPrice'' = Inr high \<and> float_field E t ''lowPrice'' = Inr low
           \<and> float_field E t ''priceChangePercent'' = Inr change
           \<and> volatility r = spec_volatility high low \<and> bt_change24h r = change
           \<and> long_apr r = py_max (Finite (- 80)) (py_min (spec_long_apr high low change) (Finite 450))
           \<and> short_apr r = py_max (Finite (- 80)) (py_min (spec_short_apr high low change) (Finite 450))"
proof -
  from assms obtain p high low change vola sv sy where
    f: "float_field E t ''lastPrice'' = Inr p" "float_field E t ''highPrice'' = Inr high"
       "float_field E t ''lowPrice'' = Inr low" "float_field E t ''priceChangePercent'' = Inr change"
    and v: "(if fgt low (Finite 0)
             then bind_err (fdiv (fsub high low) low) (\<lambda>q. Inr (fmul q (Finite 100)))
             else Inr (Finite 0)) = Inr vola"
    and r: "r = \<lparr>bt_rank = i + 1, bt_symbol = display_symbol sy, bt_price = p, volatility = vola,
              bt_change24h = change,
              long_apr = py_max (Finite (- 80))
                (py_min (fadd (fmul vola (Finite 12)) (fmul change (Finite 15))) (Finite 450)),
              short_apr = py_max (Finite (- 80))
                (py_min (fsub (fmul vola (Finite 12)) (fmul change (Finite 15))) (Finite 450))\<rparr>"
    unfolding backtest_row_def bind_err_eq_Inr Let_def by blast
  have "vola = spec_volatility high low"
    using v by (cases "fdiv (fsub high low) low") (auto simp: spec_volatility_def split: if_splits)
  with f r show ?thesis
    by (simp add: spec_long_apr_def spec_short_apr_def)
qed

lemma backtest_rows_sources:
  "backtest_rows E i kvs = Inr rs \<Longrightarrow> r \<in> set rs
   \<Longrightarrow> \<exists>i' b t. (b, t) \<in> set kvs \<and> backtest_row E i' t = Inr r"
proof (induction kvs arbitrary: i rs)
  case Nil
  then show ?case by simp
next
  case (Cons kv kvs)
  obtain b t where kv: "kv = (b, t)" by (cases kv)
  from Cons.prems(1) kv obtain r0 rs0 where
    r0: "backtest_row E i t = Inr r0" and rs0: "backtest_rows E (Suc i) kvs = Inr rs0"
    and rs: "rs = r0 # rs0"
    by (auto simp: bind_err_eq_Inr)
  show ?case
  proof (cases "r = r0")
    case True
    with r0 kv show ?thesis by auto
  next
    case False
    with Cons.prems(2) rs have "r \<in> set rs0" by simp
    from Cons.IH [OF rs0 this] show ?thesis by auto
  qed
qed

lemma unique_insert_subset:
  "unique_insert E b t kvs = Inr kvs' \<Longrightarrow> set kvs' \<subseteq> insert (b, t) (set kvs)"
proof (induction kvs arbitrary: kvs')
  case Nil
  then show ?case by auto
next
  case (Cons kv kvs)
  obtain b' t' where kv: "kv = (b', t')" by (cases kv)
  show ?case
  proof (cases "b = b'")
    case True
    with Cons.prems kv show ?thesis
      by (auto simp: bind_err_eq_Inr split: if_splits)
  next
    case False
    with Cons.prems kv obtain r where
      r: "unique_insert E b t kvs = Inr r" and k: "kvs' = (b', t') # r"
      by (auto simp: bind_err_eq_Inr)
    from Cons.IH [OF r] k kv show ?thesis by auto
  qed
qed

lemma unique_coins_subset:
  "unique_coins E fd acc = Inr u \<Longrightarrow> set u \<subseteq> set fd \<union> set acc"
proof (induction fd arbitrary: acc)
  case Nil
  then show ?case by simp
next
  case (Cons kv fd)
  obtain b t where kv: "kv = (b, t)" by (cases kv)
  from Cons.prems kv obtain acc' where
    a: "unique_insert E b t acc = Inr acc'" and u: "unique_coins E fd acc' = Inr u"
    by (auto simp: bind_err_eq_Inr)
  from Cons.IH [OF u] unique_insert_subset [OF a] kv show ?case by auto
qed

lemma filter_targets_sources:
  "filter_targets items = Inr fd \<Longrightarrow> (b, t) \<in> set fd
   \<Longrightarrow> t \<in> set items \<and> (\<exists>sy. symbol_str t = Inr sy \<and> endswith sy ''USDT''
         \<and> b = base_coin sy \<and> base_coin sy \<in> set target_coins)"
  by (induction items arbitrary: fd) (auto simp: bind_err_eq_Inr split: if_splits)

text \<open>
  C9. Every row the backtest endpoint returns is computed from a ticker of the payload
  whose base coin is whitelisted, and for that ticker's high, low and 24h change:
  the volatility is \<open>(high - low) / low * 100\<close> when \<open>low > 0\<close> and \<open>0\<close> otherwise, the
  long APR is \<open>volatility * 12 + change * 15\<close> clamped to \<open>[-80, 450]\<close> and the short APR
  is \<open>volatility * 12 - change * 15\<close> clamped to \<open>[-80, 450]\<close>, for every sum that is a
  number (on a NaN the builtins \<^verbatim>\<open>min\<close> and \<^verbatim>\<open>max\<close> give \<open>-80\<close>).
\<close>

theorem backtest_metrics:
  assumes "r \<in> set (api_grid_backtest E W)"
  shows "\<exists>items t sy high low change.
           payload_items (ticker_24hr W) = Inr items \<and> t \<in> set items
           \<and> symbol_str t = Inr sy \<and> endswith sy ''USDT'' \<and> base_coin sy \<in> set target_coins
           \<and> float_field E t ''highPrice'' = Inr high \<and> float_field E t ''lowPrice'' = Inr low
           \<and> float_field E t ''priceChangePercent'' = Inr change
           \<and> volatility r = spec_volatility high low
           \<and> (\<not> is_nan (spec_long_apr high low change) \<longrightarrow>
                long_apr r = clamp (spec_long_apr high low change) (Finite (- 80)) (Finite 450))
           \<and> (\<not> is_nan (spec_short_apr high low change) \<longrightarrow>
                short_apr r = clamp (spec_short_apr high low change) (Finite (- 80)) (Finite 450))"
proof -
  from assms obtain rs where rs: "backtest_try E W = Inr rs" and r: "r \<in> set rs"
    by (cases "backtest_try E W") (auto simp: api_grid_backtest_def split: if_splits)
  from rs obtain items fd u where
    items: "payload_items (ticker_24hr W) = Inr items"
    and fd: "filter_targets items = Inr fd"
    and u: "unique_coins E fd [] = Inr u"
    and rows: "backtest_rows E 0 (sort_key (\<lambda>x. index_of target_coins (fst x)) u) = Inr rs"
    by (auto simp: backtest_try_def payload_items_def bind_err_eq_Inr)
  from backtest_rows_sources [OF rows r] obtain i b t where
    bt: "(b, t) \<in> set u" and row: "backtest_row E i t = Inr r"
    by auto
  from unique_coins_subset [OF u] bt have "(b, t) \<in> set fd" by auto
  from filter_targets_sources [OF fd this] obtain sy where
    t: "t \<in> set items" "symbol_str t = Inr sy" "endswith sy ''USDT''" "base_coin sy \<in> set target_coins"
    by auto
  from backtest_row_metrics [OF row] obtain high low change where
    m: "float_field E t ''highPrice'' = Inr high" "float_field E t ''lowPrice'' = Inr low"
       "float_field E t ''priceChangePercent'' = Inr change"
       "volatility r = spec_volatility high low"
       "long_apr r = py_max (Finite (- 80)) (py_min (spec_long_apr high low change) (Finite 450))"
       "short_apr r = py_max (Finite (- 80)) (py_min (spec_short_apr high low change) (Finite 450))"
    by blast
  from m(5,6) have
    "\<not> is_nan (spec_long_apr high low change) \<longrightarrow>
       long_apr r = clamp (spec_long_apr high low change) (Finite (- 80)) (Finite 450)"
    "\<not> is_nan (spec_short_apr high low change) \<longrightarrow>
       short_apr r = clamp (spec_short_apr high low change) (Finite (- 80)) (Finite 450)"
    by (simp_all add: clamp_py)
  with items t m(1-4) show ?thesis by blast
qed


lemmas ex_bt_simps = ex_bt_world_def ex_bt_ticker_def ex_down_def ok_response_def ex_env_def
  api_grid_backtest_def backtest_try_def resp_json_def symbol_str_def base_coin_def
  endswith_def target_coins_def float_field_def index_of_def backtest_row_def
  display_symbol_def py_max_def py_min_def flt_def Let_def bt_row_finite_def finite_float_def
  is_inf_def is_nan_def

text \<open>
  BTCUSDT with high \<open>110\<close>, low \<open>100\<close>, change \<open>5\<close>: volatility \<open>10\<close>, long \<open>195\<close>, short
  \<open>45\<close>. ETHUSDT with high \<open>150\<close>: both clamped to \<open>450\<close>. FOOUSDT is not whitelisted.
\<close>

theorem backtest_metrics_witness:
  "api_grid_backtest ex_env ex_bt_world =
     [\<lparr>bt_rank = 1, bt_symbol = ''BTC/USDT'', bt_price = Finite 105, volatility = Finite 10,
        bt_change24h = Finite 5, long_apr = Finite 195, short_apr = Finite 45\<rparr>,
      \<lparr>bt_rank = 2, bt_symbol = ''ETH/USDT'', bt_price = Finite 105, volatility = Finite 50,
        bt_change24h = Finite 5, long_apr = Finite 450, short_apr = Finite 450\<rparr>]
   \<and> spec_volatility (Finite 110) (Finite 100) = Finite 10
   \<and> clamp (spec_long_apr (Finite 110) (Finite 100) (Finite 5)) (Finite (- 80)) (Finite 450) = Finite 195
   \<and> clamp (spec_short_apr (Finite 110) (Finite 100) (Finite 5)) (Finite (- 80)) (Finite 450) = Finite 45
   \<and> clamp (spec_long_apr (Finite 150) (Finite 100) (Finite 5)) (Finite (- 80)) (Finite 450) = Finite 450"
  using backtest_metrics [of "\<lparr>bt_rank = 1, bt_symbol = ''BTC/USDT'', bt_price = Finite 105,
        volatility = Finite 10, bt_change24h = Finite 5, long_apr = Finite 195,
        short_apr = Finite 45\<rparr>" ex_env ex_bt_world]
  by (simp add: ex_bt_simps spec_volatility_def spec_long_apr_def spec_short_apr_def clamp_def fsub_def fneg_def)


subsection \<open>The display symbol\<close>

lemma display_Nil: "display_symbol [] = []"
  by (simp add: display_symbol_def)

lemma display_usdt:
  "display_symbol (CHR ''U'' # CHR ''S'' # CHR ''D'' # CHR ''T'' # s) = ''/USDT'' @ display_symbol s"
  by (simp add: display_symbol_def)

lemma display_other:
  assumes "\<not> prefix ''USDT'' (c # cs)"
  shows "display_symbol (c # cs) = c # display_symbol cs"
  unfolding display_symbol_def
  by (subst py_replace.simps(2)) (simp only: assms simp_thms if_False)

lemma display_cases:
  obtains (nil) "s = []"
  | (usdt) s' where "s = ''USDT'' @ s'"
  | (other) c cs where "s = c # cs" "\<not> prefix ''USDT'' (c # cs)"
proof (cases s)
  case Nil
  then show ?thesis by (rule nil)
next
  case (Cons c cs)
  show ?thesis
  proof (cases "prefix ''USDT'' s")
    case True
    then obtain s' where "s = ''USDT'' @ s'" by (auto simp: prefix_def)
    then show ?thesis by (rule usdt)
  next
    case False
    with Cons show ?thesis by (auto intro: other)
  qed
qed

lemma display_Cons:
  assumes "display_symbol s = x # r"
  shows "(\<exists>s'. s = ''USDT'' @ s' \<and> x = CHR ''/'' \<and> r = ''USDT'' @ display_symbol s')
         \<or> (\<exists>cs. s = x # cs \<and> \<not> prefix ''USDT'' s \<and> r = display_symbol cs)"
proof (cases s rule: display_cases)
  case nil
  with assms show ?thesis by (simp add: display_Nil)
next
  case (usdt s')
  with assms show ?thesis by (simp add: display_usdt)
next
  case (other c cs)
  with assms show ?thesis by (simp add: display_other)
qed

lemma display_not_usdt: "\<not> prefix ''USDT'' (display_symbol s)"
proof
  assume "prefix ''USDT'' (display_symbol s)"
  then obtain r where r: "display_symbol s = CHR ''U'' # CHR ''S'' # CHR ''D'' # CHR ''T'' # r"
    by (auto simp: prefix_def)
  from display_Cons [OF r] obtain s1 where
    s1: "s = CHR ''U'' # s1" "\<not> prefix ''USDT'' s" "display_symbol s1 = CHR ''S'' # CHR ''D'' # CHR ''T'' # r"
    by auto
  from display_Cons [OF s1(3)] obtain s2 where
    s2: "s1 = CHR ''S'' # s2" "display_symbol s2 = CHR ''D'' # CHR ''T'' # r"
    by auto
  from display_Cons [OF s2(2)] obtain s3 where
    s3: "s2 = CHR ''D'' # s3" "display_symbol s3 = CHR ''T'' # r"
    by auto
  from display_Cons [OF s3(2)] obtain s4 where
    s4: "s3 = CHR ''T'' # s4"
    by auto
  from s1 s2 s3 s4 show False by simp
qed

lemma display_inj: "display_symbol a = display_symbol b \<Longrightarrow> a = b"
proof (induction a arbitrary: b rule: length_induct)
  case (1 a)
  show ?case
  proof (cases a rule: display_cases)
    case nil
    with 1(2) have "display_symbol b = []" by (simp add: display_Nil)
    then have "b = []"
      by (cases b rule: display_cases) (simp_all add: display_usdt display_other)
    with nil show ?thesis by simp
  next
    case (usdt a')
    with 1(2) have b: "display_symbol b = CHR ''/'' # ''USDT'' @ display_symbol a'"
      by (simp add: display_usdt)
    from display_Cons [OF b] show ?thesis
    proof
      assume "\<exists>s'. b = ''USDT'' @ s' \<and> CHR ''/'' = CHR ''/'' \<and> ''USDT'' @ display_symbol a' = ''USDT'' @ display_symbol s'"
      then obtain b' where b': "b = ''USDT'' @ b'" "display_symbol a' = display_symbol b'" by auto
      have "length a' < length a" using usdt by simp
      with 1(1) b'(2) have "a' = b'" by blast
      with usdt b' show ?thesis by simp
    next
      assume "\<exists>cs. b = CHR ''/'' # cs \<and> \<not> prefix ''USDT'' b \<and> ''USDT'' @ display_symbol a' = display_symbol cs"
      then obtain cs where "display_symbol cs = ''USDT'' @ display_symbol a'" by auto
      then have "prefix ''USDT'' (display_symbol cs)" by (simp add: prefix_def)
      with display_not_usdt show ?thesis by blast
    qed
  next
    case (other c cs)
    with 1(2) have b: "display_symbol b = c # display_symbol cs"
      by (simp add: display_other)
    from display_Cons [OF b] show ?thesis
    proof
      assume "\<exists>s'. b = ''USDT'' @ s' \<and> c = CHR ''/'' \<and> display_symbol cs = ''USDT'' @ display_symbol s'"
      then obtain s' where "display_symbol cs = ''USDT'' @ display_symbol s'" by auto
      then have "prefix ''USDT'' (display_symbol cs)" by (simp add: prefix_def)
      with display_not_usdt show ?thesis by blast
    next
      assume "\<exists>cs'. b = c # cs' \<and> \<not> prefix ''USDT'' b \<and> display_symbol cs = display_symbol cs'"
      then obtain cs' where cs': "b = c # cs'" "display_symbol cs = display_symbol cs'" by auto
      have "length cs < length a" using other by simp
      with 1(1) cs'(2) have "cs = cs'" by blast
      with other cs' show ?thesis by simp
    qed
  qed
qed

subsection \<open>Lists of fallible computations\<close>

lemma map_err_Inr: "map_err f xs = Inr ys \<longleftrightarrow> list_all2 (\<lambda>x y. f x = Inr y) xs ys"
proof (induction xs arbitrary: ys)
  case Nil
  show ?case by auto
next
  case (Cons x xs)
  show ?case
    by (cases ys) (auto simp: bind_err_eq_Inr Cons.IH)
qed

subsection \<open>Float order\<close>

lemma fgt_irrefl [simp]: "\<not> fgt a a"
  by (cases a) simp_all

lemma fge_iff: "a \<noteq> NaN \<Longrightarrow> b \<noteq> NaN \<Longrightarrow> fge a b \<longleftrightarrow> \<not> fgt b a"
  by (cases a; cases b) (auto simp: fge_def feq_def)

lemma fge_trans: "fge a b \<Longrightarrow> fge b c \<Longrightarrow> fge a c"
  by (cases a; cases b; cases c) (auto simp: fge_def feq_def)

lemma fgt_fge: "fgt a b \<Longrightarrow> fge a b"
  by (simp add: fge_def)

subsection \<open>The sort\<close>

lemma set_insert_desc [simp]: "set (insert_desc x ys) = insert x (set ys)"
  by (induction ys) auto

lemma set_sort_desc [simp]: "set (sort_desc xs) = set xs"
  by (induction xs) (simp_all add: sort_desc_def)


lemma length_insert_desc [simp]: "length (insert_desc x ys) = Suc (length ys)"
  by (induction ys) auto

lemma length_sort_desc [simp]: "length (sort_desc xs) = length xs"
  by (induction xs) (simp_all add: sort_desc_def)

lemma filter_insert_desc:
  "filter (\<lambda>p. fst p = k) (insert_desc x ys)
     = (if fst x = k then x # filter (\<lambda>p. fst p = k) ys else filter (\<lambda>p. fst p = k) ys)"
  by (induction ys) auto

lemma filter_sort_desc: "filter (\<lambda>p. fst p = k) (sort_desc xs) = filter (\<lambda>p. fst p = k) xs"
  by (induction xs) (simp_all add: sort_desc_def filter_insert_desc)

lemma sorted_insert_desc:
  assumes "sorted_wrt (\<lambda>p q. fge (fst p) (fst q)) ys"
    and "fst x \<noteq> NaN" and "\<forall>y \<in> set ys. fst y \<noteq> NaN"
  shows "sorted_wrt (\<lambda>p q. fge (fst p) (fst q)) (insert_desc x ys)"
  using assms
proof (induction ys)
  case Nil
  then show ?case by simp
next
  case (Cons y ys)
  show ?case
  proof (cases "fgt (fst y) (fst x)")
    case True
    with Cons show ?thesis by (auto simp: fgt_fge)
  next
    case False
    with Cons.prems have xy: "fge (fst x) (fst y)" by (simp add: fge_iff)
    with Cons.prems have "\<forall>z \<in> set ys. fge (fst x) (fst z)"
      by (auto intro: fge_trans)
    with False xy Cons.prems show ?thesis by simp
  qed
qed

lemma sort_desc_Cons: "sort_desc (x # xs) = insert_desc x (sort_desc xs)"
  by (simp add: sort_desc_def)

lemma sorted_sort_desc:
  "\<forall>y \<in> set xs. fst y \<noteq> NaN \<Longrightarrow> sorted_wrt (\<lambda>p q. fge (fst p) (fst q)) (sort_desc xs)"
proof (induction xs)
  case Nil
  then show ?case by (simp add: sort_desc_def)
next
  case (Cons x xs)
  from Cons.prems have rest: "\<forall>y \<in> set xs. fst y \<noteq> NaN" and x: "fst x \<noteq> NaN"
    by simp_all
  from Cons.IH [OF rest] have s: "sorted_wrt (\<lambda>p q. fge (fst p) (fst q)) (sort_desc xs)" .
  from rest have "\<forall>y \<in> set (sort_desc xs). fst y \<noteq> NaN" by simp
  from sorted_insert_desc [OF s x this] show ?case
    by (simp only: sort_desc_Cons)
qed

text \<open>The sort with its keys: what \<open>py_sort_desc\<close> returns.\<close>

lemma py_sort_desc_Inr:
  assumes "py_sort_desc key xs = Inr ys"
  shows "set ys = set xs"
    and "length ys = length xs"
    and "filter (\<lambda>t. key t = Inr k) ys = filter (\<lambda>t. key t = Inr k) xs"
    and "\<forall>t \<in> set xs. key t \<noteq> Inr NaN
         \<Longrightarrow> sorted_wrt (\<lambda>a b. \<exists>ka kb. key a = Inr ka \<and> key b = Inr kb \<and> fge ka kb) ys"
    and "\<forall>t \<in> set xs. \<exists>k. key t = Inr k"
proof -
  from assms obtain ks where ks: "map_err key xs = Inr ks"
    and ys: "ys = map snd (sort_desc (zip ks xs))"
    by (auto simp: py_sort_desc_def bind_err_eq_Inr)
  from ks have l2: "list_all2 (\<lambda>x y. key x = Inr y) xs ks" by (simp add: map_err_Inr)
  then have len: "length ks = length xs" by (simp add: list_all2_lengthD)
  have pairs: "key (snd p) = Inr (fst p)" if "p \<in> set (zip ks xs)" for p
  proof -
    from that obtain i where "i < length xs" "p = (ks ! i, xs ! i)"
      by (auto simp: set_zip len)
    with list_all2_nthD [OF l2, of i] show ?thesis by simp
  qed
  have "map snd (zip ks xs) = xs"
    using len by (simp add: map_snd_zip)
  then have "snd ` set (zip ks xs) = set xs"
    by (metis set_map)
  then show "set ys = set xs"
    by (simp add: ys)
  show "length ys = length xs"
    using len by (simp add: ys)
  have "filter (\<lambda>t. key t = Inr k) ys
          = map snd (filter (\<lambda>p. key (snd p) = Inr k) (sort_desc (zip ks xs)))"
    by (simp add: ys filter_map comp_def)
  also have "filter (\<lambda>p. key (snd p) = Inr k) (sort_desc (zip ks xs))
          = filter (\<lambda>p. fst p = k) (sort_desc (zip ks xs))"
    by (rule filter_cong) (auto simp: pairs)
  also have "\<dots> = filter (\<lambda>p. fst p = k) (zip ks xs)"
    by (rule filter_sort_desc)
  also have "\<dots> = filter (\<lambda>p. key (snd p) = Inr k) (zip ks xs)"
    by (rule filter_cong) (auto simp: pairs)
  also have "map snd \<dots> = filter (\<lambda>t. key t = Inr k) (map snd (zip ks xs))"
    by (simp add: filter_map comp_def)
  also have "map snd (zip ks xs) = xs"
    using len by (simp add: map_snd_zip)
  finally show "filter (\<lambda>t. key t = Inr k) ys = filter (\<lambda>t. key t = Inr k) xs" .
  show "\<forall>t \<in> set xs. \<exists>k. key t = Inr k"
    using l2 by (auto simp: in_set_conv_nth list_all2_conv_all_nth)
  show "sorted_wrt (\<lambda>a b. \<exists>ka kb. key a = Inr ka \<and> key b = Inr kb \<and> fge ka kb) ys"
    if nn: "\<forall>t \<in> set xs. key t \<noteq> Inr NaN"
  proof -
    have "\<forall>p \<in> set (zip ks xs). fst p \<noteq> NaN"
    proof
      fix p assume p: "p \<in> set (zip ks xs)"
      then have "snd p \<in> set xs" by (metis prod.collapse set_zip_rightD)
      with nn pairs [OF p] show "fst p \<noteq> NaN" by auto
    qed
    then have s: "sorted_wrt (\<lambda>p q. fge (fst p) (fst q)) (sort_desc (zip ks xs))"
      by (rule sorted_sort_desc)
    have "sorted_wrt (\<lambda>p q. \<exists>ka kb. key (snd p) = Inr ka \<and> key (snd q) = Inr kb \<and> fge ka kb)
            (sort_desc (zip ks xs))"
      by (rule sorted_wrt_mono_rel [OF _ s]) (auto simp: pairs)
    then show ?thesis
      by (simp add: ys sorted_wrt_map)
  qed
qed

subsection \<open>The funding lookup\<close>

lemma find_append:
  "find P (xs @ ys) = (case find P xs of Some x \<Rightarrow> Some x | None \<Rightarrow> find P ys)"
  by (induction xs) auto

lemma map_of_Some_key: "map_of kvs k = Some v \<Longrightarrow> k \<in> fst ` set kvs"
  by (metis domI dom_map_of_conv_image_fst)

lemma not_contains_no_item: "py_contains k item = Inr False \<Longrightarrow> py_item item k \<noteq> Inr v"
  by (cases item) (auto split: option.splits dest: map_of_Some_key)

lemma build_funding_map_lookup:
  "build_funding_map items m = Inr fm
   \<Longrightarrow> fm sy = (case matching_funding items sy of Some it \<Rightarrow> Some it | None \<Rightarrow> m sy)"
proof (induction items arbitrary: m)
  case Nil
  then show ?case by (simp add: matching_funding_def)
next
  case (Cons item items)
  let ?P = "\<lambda>item. py_item item ''symbol'' = Inr (JStr sy)"
  have mf: "matching_funding (item # items) sy
              = (case matching_funding items sy of Some x \<Rightarrow> Some x
                 | None \<Rightarrow> if ?P item then Some item else None)"
    by (simp add: matching_funding_def find_append split: option.splits)
  from Cons.prems obtain has where has: "py_contains ''symbol'' item = Inr has"
    by (auto simp: bind_err_eq_Inr)
  show ?case
  proof (cases has)
    case False
    with has Cons.prems have b: "build_funding_map items m = Inr fm" by simp
    from has False have "\<not> ?P item" by (simp add: not_contains_no_item)
    with Cons.IH [OF b] mf show ?thesis by (simp split: option.splits)
  next
    case True
    with has Cons.prems obtain k where k: "py_item item ''symbol'' = Inr k"
      by (auto simp: bind_err_eq_Inr)
    show ?thesis
    proof (cases k)
      case (JStr s)
      with True has k Cons.prems have b: "build_funding_map items (m(s \<mapsto> item)) = Inr fm"
        by simp
      from k JStr have "?P item \<longleftrightarrow> s = sy" by simp
      with Cons.IH [OF b] mf show ?thesis by (auto split: option.splits)
    next
      case JNull
      with True has k Cons.prems have b: "build_funding_map items m = Inr fm" by simp
      from k JNull have "\<not> ?P item" by simp
      with Cons.IH [OF b] mf show ?thesis by (simp split: option.splits)
    next
      case (JBool x)
      with True has k Cons.prems have b: "build_funding_map items m = Inr fm" by simp
      from k JBool have "\<not> ?P item" by simp
      with Cons.IH [OF b] mf show ?thesis by (simp split: option.splits)
    next
      case (JInt x)
      with True has k Cons.prems have b: "build_funding_map items m = Inr fm" by simp
      from k JInt have "\<not> ?P item" by simp
      with Cons.IH [OF b] mf show ?thesis by (simp split: option.splits)
    next
      case (JFloat x)
      with True has k Cons.prems have b: "build_funding_map items m = Inr fm" by simp
      from k JFloat have "\<not> ?P item" by simp
      with Cons.IH [OF b] mf show ?thesis by (simp split: option.splits)
    next
      case (JList x)
      with True has k Cons.prems show ?thesis by simp
    next
      case (JObj x)
      with True has k Cons.prems show ?thesis by simp
    qed
  qed
qed

lemma funding_map_matching:
  "build_funding_map items Map.empty = Inr fm \<Longrightarrow> fm sy = matching_funding items sy"
  by (drule build_funding_map_lookup [where sy = sy]) (simp split: option.splits)

subsection \<open>The filter\<close>

text \<open>One turn of the loop, read through the notions of the specification.\<close>

lemma place_spec:
  assumes fm: "\<And>sy. fm sy = matching_funding fitems sy"
    and p: "place E fm t = Inr p"
  shows "(p = Dropped \<longleftrightarrow> \<not> eligible E fitems t)
         \<and> (p = Main \<longleftrightarrow> in_main E fitems t)
         \<and> (p = Other \<longleftrightarrow> in_other E fitems t)"
proof -
  from p obtain symv where symv: "py_get t ''symbol'' (JStr []) = Inr symv"
    by (auto simp: place_def bind_err_eq_Inr)
  with p obtain sy where sy: "symv = JStr sy"
    by (cases symv) (auto simp: place_def)
  have ss: "symbol_str t = Inr sy"
    using symv sy by (simp add: symbol_str_def)
  show ?thesis
  proof (cases "endswith sy ''USDT''")
    case False
    with p symv sy ss show ?thesis
      by (auto simp: place_def eligible_def in_main_def in_other_def)
  next
    case ends: True
    with p symv sy obtain vol where vol: "float_field E t ''quoteVolume'' = Inr vol"
      by (auto simp: place_def float_field_def bind_err_eq_Inr)
    show ?thesis
    proof (cases "fgt vol (Finite 1000000)")
      case False
      with p symv sy ss ends vol show ?thesis
        by (auto simp: place_def eligible_def in_main_def in_other_def float_field_def bind_err_eq_Inr)
    next
      case big: True
      with p symv sy ends vol obtain active where
        act: "bind_err (py_get (funding_lookup fm sy) ''nextFundingTime'' (JInt 0)) py_gt0 = Inr active"
        by (auto simp: place_def float_field_def bind_err_eq_Inr)
      show ?thesis
      proof (cases "matching_funding fitems sy")
        case None
        then have fl: "funding_lookup fm sy = JObj []" by (simp add: funding_lookup_def fm)
        with act have "\<not> active" by auto
        with p symv sy ends vol big act fl have "p = Dropped"
          by (auto simp: place_def float_field_def bind_err_eq_Inr)
        with ss None show ?thesis
          by (simp add: eligible_def in_main_def in_other_def)
      next
        case (Some f)
        then have fl: "funding_lookup fm sy = f" by (simp add: funding_lookup_def fm)
        show ?thesis
        proof (cases active)
          case False
          with p symv sy ends vol big act have "p = Dropped"
            by (auto simp: place_def float_field_def bind_err_eq_Inr)
          with ss Some ends vol big act fl False show ?thesis
            by (simp add: eligible_def in_main_def in_other_def)
        next
          case True
          with ss Some ends vol big act fl have el: "eligible E fitems t"
            by (simp add: eligible_def)
          from p symv sy ends vol big act True fl obtain rate where
            rate: "float_field E f ''lastFundingRate'' = Inr rate"
            and pp: "p = (if feq rate (Finite 0) then Other else Main)"
            by (auto simp: place_def float_field_def bind_err_eq_Inr)
          from ss Some rate have "funding_rate_of E fitems t = Inr rate"
            by (simp add: funding_rate_of_def)
          with el pp show ?thesis
            by (simp add: in_main_def in_other_def)
        qed
      qed
    qed
  qed
qed

lemma classify_filter:
  assumes "classify E fm tks = Inr (us, os)"
  shows "us = filter (\<lambda>t. place E fm t = Inr Main) tks
         \<and> os = filter (\<lambda>t. place E fm t = Inr Other) tks
         \<and> (\<forall>t \<in> set tks. \<exists>p. place E fm t = Inr p)"
  using assms
proof (induction tks arbitrary: us os)
  case Nil
  then show ?case by simp
next
  case (Cons t tks)
  from Cons.prems obtain p us' os' where
    p: "place E fm t = Inr p" and r: "classify E fm tks = Inr (us', os')"
    and e: "(us, os) = (case p of Main \<Rightarrow> (t # us', os') | Other \<Rightarrow> (us', t # os')
                        | Dropped \<Rightarrow> (us', os'))"
    by (auto simp: bind_err_eq_Inr)
  from Cons.IH [OF r] p e show ?case
    by (cases p) auto
qed

lemma classify_spec:
  assumes fm: "\<And>sy. fm sy = matching_funding fitems sy"
    and c: "classify E fm tks = Inr (us, os)"
  shows "us = filter (in_main E fitems) tks" and "os = filter (in_other E fitems) tks"
    and "\<forall>t \<in> set tks. eligible E fitems t \<longrightarrow> in_main E fitems t \<or> in_other E fitems t"
proof -
  note cf = classify_filter [OF c]
  have pl: "\<exists>p. place E fm t = Inr p" if "t \<in> set tks" for t
    using cf that by blast
  have m: "place E fm t = Inr Main \<longleftrightarrow> in_main E fitems t" if "t \<in> set tks" for t
    using pl [OF that] place_spec [OF fm] by (metis sum.inject(2))
  have o: "place E fm t = Inr Other \<longleftrightarrow> in_other E fitems t" if "t \<in> set tks" for t
    using pl [OF that] place_spec [OF fm] by (metis sum.inject(2))
  show "us = filter (in_main E fitems) tks"
    using cf m by (metis (mono_tags, lifting) filter_cong)
  show "os = filter (in_other E fitems) tks"
    using cf o by (metis (mono_tags, lifting) filter_cong)
  show "\<forall>t \<in> set tks. eligible E fitems t \<longrightarrow> in_main E fitems t \<or> in_other E fitems t"
  proof (intro ballI impI)
    fix t assume t: "t \<in> set tks" and el: "eligible E fitems t"
    from pl [OF t] obtain p where p: "place E fm t = Inr p" by blast
    from place_spec [OF fm p] el show "in_main E fitems t \<or> in_other E fitems t"
      by (cases p) auto
  qed
qed

subsection \<open>Rows\<close>

lemma result_row_of: "result_row E fm im ls i t = Inr r \<Longrightarrow> row_of E t r"
  unfolding result_row_def bind_err_eq_Inr row_of_def
  by (elim exE conjE) auto

lemma map_result_from_rows:
  "map_result_from E fm im ls i xs = Inr rs \<Longrightarrow> list_all2 (row_of E) xs rs"
proof (induction xs arbitrary: i rs)
  case Nil
  then show ?case by simp
next
  case (Cons t xs)
  from Cons.prems obtain r rs' where
    r: "result_row E fm im ls i t = Inr r" and rest: "map_result_from E fm im ls (Suc i) xs = Inr rs'"
    and rs: "rs = r # rs'"
    by (auto simp: bind_err_eq_Inr)
  from result_row_of [OF r] Cons.IH [OF rest] rs show ?case by simp
qed

lemma map_result_rows: "map_result E fm im ls xs = Inr rs \<Longrightarrow> list_all2 (row_of E) xs rs"
  unfolding map_result_def by (rule map_result_from_rows)

text \<open>Two tickers with the same row have the same symbol, volume and change.\<close>

lemma row_of_same:
  assumes "row_of E t r" and "row_of E t' r"
  shows "symbol_str t = symbol_str t'"
    and "float_field E t ''quoteVolume'' = float_field E t' ''quoteVolume''"
    and "float_field E t ''priceChangePercent'' = float_field E t' ''priceChangePercent''"
proof -
  from assms obtain sy sy' where
    s: "symbol_str t = Inr sy" "symbol_str t' = Inr sy'"
       "display_symbol sy = display_symbol sy'"
    by (auto simp: row_of_def split: sum.splits)
  from display_inj [OF s(3)] s(1,2) show "symbol_str t = symbol_str t'" by simp
  from assms show "float_field E t ''quoteVolume'' = float_field E t' ''quoteVolume''"
    by (simp add: row_of_def)
  from assms show "float_field E t ''priceChangePercent'' = float_field E t' ''priceChangePercent''"
    by (simp add: row_of_def)
qed

lemma row_of_cong:
  assumes "symbol_str t = symbol_str t'"
    and "float_field E t ''quoteVolume'' = float_field E t' ''quoteVolume''"
    and "float_field E t ''priceChangePercent'' = float_field E t' ''priceChangePercent''"
  shows "row_of E t r = row_of E t' r"
  using assms by (simp add: row_of_def)

lemma eligible_cong:
  assumes "symbol_str t = symbol_str t'"
    and "float_field E t ''quoteVolume'' = float_field E t' ''quoteVolume''"
  shows "eligible E fitems t = eligible E fitems t'"
    and "in_main E fitems t = in_main E fitems t'"
    and "in_other E fitems t = in_other E fitems t'"
  unfolding eligible_def in_main_def in_other_def funding_rate_of_def assms by (rule refl)+

text \<open>Being listed in the rows of a list of tickers.\<close>

lemma listed_member:
  assumes "list_all2 (row_of E) tks rows" and "t \<in> set tks"
  shows "listed E t rows"
proof -
  from assms(2) obtain i where i: "i < length tks" "tks ! i = t"
    by (auto simp: in_set_conv_nth)
  with assms(1) have "row_of E t (rows ! i)" "i < length rows"
    by (auto simp: list_all2_conv_all_nth)
  then show ?thesis
    unfolding listed_def by (metis nth_mem)
qed

lemma listed_source:
  assumes "list_all2 (row_of E) tks rows" and "listed E t rows"
  shows "\<exists>t' \<in> set tks. symbol_str t = symbol_str t'
            \<and> float_field E t ''quoteVolume'' = float_field E t' ''quoteVolume''
            \<and> float_field E t ''priceChangePercent'' = float_field E t' ''priceChangePercent''"
proof -
  from assms(2) obtain r where r: "r \<in> set rows" "row_of E t r"
    by (auto simp: listed_def)
  from r(1) obtain i where i: "i < length rows" "rows ! i = r"
    by (auto simp: in_set_conv_nth)
  with assms(1) have t': "row_of E (tks ! i) r" "i < length tks"
    by (auto simp: list_all2_conv_all_nth)
  from row_of_same [OF r(2) t'(1)] t'(2) show ?thesis
    by (metis nth_mem)
qed

subsection \<open>A cycle that succeeds\<close>

lemma collect_InrD:
  assumes "collect E W = Inr j"
  shows "\<exists>tickers fitems us os.
           payload_items (ticker_24hr W) = Inr tickers
           \<and> payload_items (premium_index W) = Inr fitems
           \<and> build_funding_map fitems Map.empty = Inr (funding_map j)
           \<and> classify E (funding_map j) tickers = Inr (us, os)
           \<and> py_sort_desc (change_key E) us = Inr (top100 j)
           \<and> py_sort_desc (change_key E) os = Inr (other_top100 j)"
proof -
  from assms obtain rt rf ri rk where
    g: "gather4 (ticker_24hr W) (premium_index W) (funding_info W) (klines W) = Inr (rt, rf, ri, rk)"
    by (cases "gather4 (ticker_24hr W) (premium_index W) (funding_info W) (klines W)")
       (auto simp: collect_def)
  then have w: "ticker_24hr W = Inr rt" "premium_index W = Inr rf"
    by (auto simp: gather4_def bind_err_eq_Inr)
  from assms g obtain tickers funding_data fitems fm titems usos sm so where
    a: "resp_json rt = Inr tickers" "resp_json rf = Inr funding_data"
       "py_iter funding_data = Inr fitems" "build_funding_map fitems Map.empty = Inr fm"
       "py_iter tickers = Inr titems" "classify E fm titems = Inr usos"
       "py_sort_desc (change_key E) (fst usos) = Inr sm"
       "py_sort_desc (change_key E) (snd usos) = Inr so"
       "funding_map j = fm" "top100 j = sm" "other_top100 j = so"
    unfolding collect_def bind_err_eq_Inr
    by (auto simp: bind_err_eq_Inr split: prod.splits)
  have "payload_items (ticker_24hr W) = Inr titems"
    "payload_items (premium_index W) = Inr fitems"
    using w a by (simp_all add: payload_items_def)
  with a show ?thesis
    by (cases usos) auto
qed

lemma snapshot_cycle_InrD:
  assumes "snapshot_cycle E W now now_ls c = (Inr s, c')"
  shows "\<exists>j ls. collect E W = Inr j
           \<and> map_result E (funding_map j) (interval_map j) ls (top100 j) = Inr (data s)
           \<and> map_result E (funding_map j) (interval_map j) ls (other_top100 j) = Inr (other s)"
proof -
  from assms obtain j where j: "collect E W = Inr j"
    by (cases "collect E W") (auto simp: snapshot_cycle_def)
  with assms obtain syms where syms: "map_err symbol_str (top100 j @ other_top100 j) = Inr syms"
    by (cases "map_err symbol_str (top100 j @ other_top100 j)") (auto simp: snapshot_cycle_def)
  obtain ls c1 where b: "fetch_ls_ratio_batch E W now_ls c syms = (ls, c1)"
    by (cases "fetch_ls_ratio_batch E W now_ls c syms")
  with assms j syms have "assemble E j ls now = Inr s"
    by (simp add: snapshot_cycle_def)
  then have "map_result E (funding_map j) (interval_map j) ls (top100 j) = Inr (data s)"
    "map_result E (funding_map j) (interval_map j) ls (other_top100 j) = Inr (other s)"
    by (auto simp: assemble_def bind_err_eq_Inr)
  with j show ?thesis by blast
qed

text \<open>
  What a successful cycle did, in the notions of the specification: the tickers behind the
  two lists are the tickers the specification puts in \<open>main\<close> and in \<open>other\<close>, each sorted
  by the code's sort, and the rows are their rows, in the same order.
\<close>

lemma cycle_lists:
  assumes "snapshot_cycle E W now now_ls c = (Inr s, c')"
    and "payload_items (ticker_24hr W) = Inr tickers"
    and "payload_items (premium_index W) = Inr fitems"
  shows "\<exists>main_t other_t.
           py_sort_desc (change_key E) (filter (in_main E fitems) tickers) = Inr main_t
           \<and> py_sort_desc (change_key E) (filter (in_other E fitems) tickers) = Inr other_t
           \<and> list_all2 (row_of E) main_t (data s)
           \<and> list_all2 (row_of E) other_t (other s)
           \<and> (\<forall>t \<in> set tickers. eligible E fitems t \<longrightarrow> in_main E fitems t \<or> in_other E fitems t)"
proof -
  from snapshot_cycle_InrD [OF assms(1)] obtain j ls where
    j: "collect E W = Inr j"
    and m: "map_result E (funding_map j) (interval_map j) ls (top100 j) = Inr (data s)"
    and o: "map_result E (funding_map j) (interval_map j) ls (other_top100 j) = Inr (other s)"
    by blast
  from collect_InrD [OF j] assms(2,3) obtain us os where
    b: "build_funding_map fitems Map.empty = Inr (funding_map j)"
    and c: "classify E (funding_map j) tickers = Inr (us, os)"
    and sm: "py_sort_desc (change_key E) us = Inr (top100 j)"
    and so: "py_sort_desc (change_key E) os = Inr (other_top100 j)"
    by auto
  have fm: "funding_map j sy = matching_funding fitems sy" for sy
    by (rule funding_map_matching [OF b])
  note cs = classify_spec [OF fm c]
  from sm so cs(1,2) map_result_rows [OF m] map_result_rows [OF o] cs(3)
  show ?thesis by blast
qed

subsection \<open>Filter, classification and order of the snapshot\<close>

lemma cycle_returned:
  assumes "\<not> tickers_cache_fresh c now"
    and "snapshot_cycle E W now now_ls c = (Inr s, c')"
  shows "fetch_binance_tickers E W now now_ls c = (Snapshot s, c'\<lparr>binance_tickers_100 := Some s\<rparr>)"
  using assms by (simp add: fetch_binance_tickers_def)

lemma listed_main_iff:
  assumes "snapshot_cycle E W now now_ls c = (Inr s, c')"
    and "payload_items (ticker_24hr W) = Inr tickers"
    and "payload_items (premium_index W) = Inr fitems"
    and "t \<in> set tickers"
  shows "listed E t (data s) \<longleftrightarrow> in_main E fitems t"
proof -
  from cycle_lists [OF assms(1-3)] obtain main_t where
    srt: "py_sort_desc (change_key E) (filter (in_main E fitems) tickers) = Inr main_t"
    and rows: "list_all2 (row_of E) main_t (data s)"
    by blast
  have set_eq: "set main_t = {t \<in> set tickers. in_main E fitems t}"
    using py_sort_desc_Inr(1) [OF srt] by simp
  show ?thesis
  proof
    assume "listed E t (data s)"
    from listed_source [OF rows this] obtain t' where
      t': "t' \<in> set main_t" "symbol_str t = symbol_str t'"
          "float_field E t ''quoteVolume'' = float_field E t' ''quoteVolume''"
      by blast
    from t'(1) set_eq have "in_main E fitems t'" by simp
    with eligible_cong(2) [OF t'(2,3)] show "in_main E fitems t" by simp
  next
    assume "in_main E fitems t"
    with assms(4) set_eq have "t \<in> set main_t" by simp
    from listed_member [OF rows this] show "listed E t (data s)" .
  qed
qed

lemma listed_other_iff:
  assumes "snapshot_cycle E W now now_ls c = (Inr s, c')"
    and "payload_items (ticker_24hr W) = Inr tickers"
    and "payload_items (premium_index W) = Inr fitems"
    and "t \<in> set tickers"
  shows "listed E t (other s) \<longleftrightarrow> in_other E fitems t"
proof -
  from cycle_lists [OF assms(1-3)] obtain other_t where
    srt: "py_sort_desc (change_key E) (filter (in_other E fitems) tickers) = Inr other_t"
    and rows: "list_all2 (row_of E) other_t (other s)"
    by blast
  have set_eq: "set other_t = {t \<in> set tickers. in_other E fitems t}"
    using py_sort_desc_Inr(1) [OF srt] by simp
  show ?thesis
  proof
    assume "listed E t (other s)"
    from listed_source [OF rows this] obtain t' where
      t': "t' \<in> set other_t" "symbol_str t = symbol_str t'"
          "float_field E t ''quoteVolume'' = float_field E t' ''quoteVolume''"
      by blast
    from t'(1) set_eq have "in_other E fitems t'" by simp
    with eligible_cong(3) [OF t'(2,3)] show "in_other E fitems t" by simp
  next
    assume "in_other E fitems t"
    with assms(4) set_eq have "t \<in> set other_t" by simp
    from listed_member [OF rows this] show "listed E t (other s)" .
  qed
qed

text \<open>
  C3. When a refresh cycle succeeds, its snapshot is what \<^verbatim>\<open>fetch_binance_tickers\<close>
  returns, and a ticker of the upstream payload is listed in it, in \<open>main\<close> or in \<open>other\<close>,
  if and only if it is eligible: its symbol ends with \<^verbatim>\<open>USDT\<close>, its quote volume is
  above 1,000,000 and its matching funding record has \<^verbatim>\<open>nextFundingTime > 0\<close>. A ticker
  that is not eligible is in neither list.
\<close>

theorem listed_iff_eligible:
  assumes "\<not> tickers_cache_fresh c now"
    and "snapshot_cycle E W now now_ls c = (Inr s, c')"
    and "payload_items (ticker_24hr W) = Inr tickers"
    and "payload_items (premium_index W) = Inr fitems"
    and "t \<in> set tickers"
  shows "fst (fetch_binance_tickers E W now now_ls c) = Snapshot s
         \<and> ((listed E t (data s) \<or> listed E t (other s)) \<longleftrightarrow> eligible E fitems t)"
proof -
  have "in_main E fitems t \<or> in_other E fitems t \<longleftrightarrow> eligible E fitems t"
    using cycle_lists [OF assms(2-4)] assms(5)
    by (auto simp: in_main_def in_other_def)
  with listed_main_iff [OF assms(2-5)] listed_other_iff [OF assms(2-5)]
    cycle_returned [OF assms(1,2)]
  show ?thesis by simp
qed

lemmas scenario_run = ex_simps run_simps scenario_snapshot_def ex_row_def ex_ls_def
  payload_items_def cache_ttl_def

text \<open>
  The scenario of the specification: BTCUSDT is eligible and listed; ETHUSDT (volume
  500,000) and SOLUSDT (\<^verbatim>\<open>nextFundingTime\<close> 0) are not eligible and not listed.
\<close>

theorem listed_iff_eligible_witness:
  "\<not> tickers_cache_fresh cold_cache 1000
   \<and> fst (snapshot_cycle ex_env (ex_world scenario_tickers scenario_fundings (ok_response (JList [])))
        1000 1000 cold_cache) = Inr scenario_snapshot
   \<and> payload_items (ticker_24hr (ex_world scenario_tickers scenario_fundings (ok_response (JList []))))
       = Inr scenario_tickers
   \<and> payload_items (premium_index (ex_world scenario_tickers scenario_fundings (ok_response (JList []))))
       = Inr scenario_fundings
   \<and> eligible ex_env scenario_fundings (ex_ticker ''BTCUSDT'' ''2000000'' ''5'')
   \<and> listed ex_env (ex_ticker ''BTCUSDT'' ''2000000'' ''5'') (data scenario_snapshot)
   \<and> \<not> eligible ex_env scenario_fundings (ex_ticker ''ETHUSDT'' ''500000'' ''3'')
   \<and> \<not> listed ex_env (ex_ticker ''ETHUSDT'' ''500000'' ''3'') (data scenario_snapshot)
   \<and> \<not> listed ex_env (ex_ticker ''ETHUSDT'' ''500000'' ''3'') (other scenario_snapshot)
   \<and> \<not> eligible ex_env scenario_fundings (ex_ticker ''SOLUSDT'' ''3000000'' ''-1'')
   \<and> \<not> listed ex_env (ex_ticker ''SOLUSDT'' ''3000000'' ''-1'') (data scenario_snapshot)"
  using listed_iff_eligible [of cold_cache 1000 ex_env
      "ex_world scenario_tickers scenario_fundings (ok_response (JList []))" 1000 scenario_snapshot
      "snd (snapshot_cycle ex_env (ex_world scenario_tickers scenario_fundings (ok_response (JList [])))
        1000 1000 cold_cache)" scenario_tickers scenario_fundings
      "ex_ticker ''BTCUSDT'' ''2000000'' ''5''"]
    listed_iff_eligible [of cold_cache 1000 ex_env
      "ex_world scenario_tickers scenario_fundings (ok_response (JList []))" 1000 scenario_snapshot
      "snd (snapshot_cycle ex_env (ex_world scenario_tickers scenario_fundings (ok_response (JList [])))
        1000 1000 cold_cache)" scenario_tickers scenario_fundings
      "ex_ticker ''ETHUSDT'' ''500000'' ''3''"]
  by (simp add: scenario_run eligible_def listed_def row_of_def matching_funding_def)


lemma sorted_rows:
  assumes "list_all2 (row_of E) tks rows"
    and "sorted_wrt (\<lambda>a b. \<exists>ka kb. change_key E a = Inr ka \<and> change_key E b = Inr kb \<and> fge ka kb) tks"
  shows "sorted_wrt (\<lambda>a b. fge (change24h a) (change24h b)) rows"
proof -
  have len: "length tks = length rows"
    using assms(1) by (rule list_all2_lengthD)
  have key: "change_key E (tks ! i) = Inr (change24h (rows ! i))" if "i < length rows" for i
  proof -
    from that len have "i < length tks" by simp
    from list_all2_nthD [OF assms(1) this] show ?thesis
      by (simp add: row_of_def change_key_def)
  qed
  have nth: "\<exists>ka kb. change_key E (tks ! i) = Inr ka \<and> change_key E (tks ! j) = Inr kb \<and> fge ka kb"
    if "i < j" "j < length tks" for i j
    using assms(2) that by (simp add: sorted_wrt_iff_nth_less)
  show ?thesis
    unfolding sorted_wrt_iff_nth_less
  proof (intro allI impI)
    fix i j assume ij: "i < j" "j < length rows"
    then have i: "i < length rows" by simp
    from ij len have "j < length tks" by simp
    from nth [OF ij(1) this] obtain ka kb where
      k: "change_key E (tks ! i) = Inr ka" "change_key E (tks ! j) = Inr kb" "fge ka kb"
      by blast
    from k(1) key [OF i] have "ka = change24h (rows ! i)" by simp
    moreover from k(2) key [OF ij(2)] have "kb = change24h (rows ! j)" by simp
    ultimately show "fge (change24h (rows ! i)) (change24h (rows ! j))"
      using k(3) by simp
  qed
qed

subsection \<open>The example of the four funding rates\<close>

lemmas rates_run = ex_simps run_simps rates_tickers_def rates_fundings_def rates_snapshot_def
  ex_row_def ex_ls_def payload_items_def cache_ttl_def

lemmas rates_spec = ex_env_def ex_ticker_def ex_funding_def rates_tickers_def rates_fundings_def
  rates_snapshot_def ex_row_def ex_ls_def ls_default_def eligible_def listed_def row_of_def
  matching_funding_def funding_rate_of_def in_main_def in_other_def symbol_str_def
  float_field_def change_key_def display_symbol_def endswith_def feq_def

lemma rates_cycle:
  "snapshot_cycle ex_env (ex_world rates_tickers rates_fundings (ok_response (JList [])))
     1000 1000 cold_cache
   = (Inr rates_snapshot,
      snd (snapshot_cycle ex_env (ex_world rates_tickers rates_fundings (ok_response (JList [])))
        1000 1000 cold_cache))"
proof -
  have "fst (snapshot_cycle ex_env (ex_world rates_tickers rates_fundings (ok_response (JList [])))
     1000 1000 cold_cache) = Inr rates_snapshot"
    by (simp add: rates_run)
  then show ?thesis by (simp add: prod_eq_iff)
qed

lemma rates_payloads:
  "payload_items (ticker_24hr (ex_world rates_tickers rates_fundings (ok_response (JList []))))
     = Inr rates_tickers"
  "payload_items (premium_index (ex_world rates_tickers rates_fundings (ok_response (JList []))))
     = Inr rates_fundings"
  by (simp_all add: payload_items_def ex_world_def ok_response_def resp_json_def)


text \<open>
  C4. When a refresh cycle succeeds, every eligible ticker of the upstream payload has a
  funding rate, \<^verbatim>\<open>lastFundingRate\<close> of its funding record parsed as a float, and the
  ticker is listed in \<open>other\<close> if and only if that rate equals \<open>0.0\<close>, in \<open>main\<close> if and only
  if it does not.
\<close>

theorem zero_rate_goes_other:
  assumes "snapshot_cycle E W now now_ls c = (Inr s, c')"
    and "payload_items (ticker_24hr W) = Inr tickers"
    and "payload_items (premium_index W) = Inr fitems"
    and "t \<in> set tickers" and "eligible E fitems t"
  shows "\<exists>r. funding_rate_of E fitems t = Inr r
           \<and> (listed E t (other s) \<longleftrightarrow> feq r (Finite 0))
           \<and> (listed E t (data s) \<longleftrightarrow> \<not> feq r (Finite 0))"
proof -
  from cycle_lists [OF assms(1-3)] assms(4,5)
  have "in_main E fitems t \<or> in_other E fitems t" by blast
  then obtain r where r: "funding_rate_of E fitems t = Inr r"
    by (cases "funding_rate_of E fitems t") (auto simp: in_main_def in_other_def)
  with assms(5) have "in_other E fitems t \<longleftrightarrow> feq r (Finite 0)"
    "in_main E fitems t \<longleftrightarrow> \<not> feq r (Finite 0)"
    by (simp_all add: in_main_def in_other_def)
  with listed_main_iff [OF assms(1-4)] listed_other_iff [OF assms(1-4)] r
  show ?thesis by simp
qed

text \<open>
  Funding rates \<open>0.0001\<close>, \<open>0.0\<close>, \<open>-0.0002\<close>, \<open>0.0\<close> for BTCUSDT, ETHUSDT, SOLUSDT,
  XRPUSDT: ETH and XRP are in \<open>other\<close>, SOL and BTC in \<open>main\<close>.
\<close>

theorem zero_rate_goes_other_witness:
  "fst (snapshot_cycle ex_env (ex_world rates_tickers rates_fundings (ok_response (JList [])))
        1000 1000 cold_cache) = Inr rates_snapshot
   \<and> payload_items (ticker_24hr (ex_world rates_tickers rates_fundings (ok_response (JList []))))
       = Inr rates_tickers
   \<and> payload_items (premium_index (ex_world rates_tickers rates_fundings (ok_response (JList []))))
       = Inr rates_fundings
   \<and> map (funding_rate_of ex_env rates_fundings) rates_tickers
       = [Inr (Finite 0.0001), Inr (Finite 0), Inr (Finite (- 0.0002)), Inr (Finite 0)]
   \<and> map symbol (data rates_snapshot) = [''SOL/USDT'', ''BTC/USDT'']
   \<and> map symbol (other rates_snapshot) = [''ETH/USDT'', ''XRP/USDT'']
   \<and> eligible ex_env rates_fundings (ex_ticker ''ETHUSDT'' ''3000000'' ''3'')
   \<and> listed ex_env (ex_ticker ''ETHUSDT'' ''3000000'' ''3'') (other rates_snapshot)
   \<and> \<not> listed ex_env (ex_ticker ''ETHUSDT'' ''3000000'' ''3'') (data rates_snapshot)
   \<and> eligible ex_env rates_fundings (ex_ticker ''BTCUSDT'' ''2000000'' ''-1'')
   \<and> listed ex_env (ex_ticker ''BTCUSDT'' ''2000000'' ''-1'') (data rates_snapshot)
   \<and> \<not> listed ex_env (ex_ticker ''BTCUSDT'' ''2000000'' ''-1'') (other rates_snapshot)"
proof -
  have mem: "ex_ticker ''ETHUSDT'' ''3000000'' ''3'' \<in> set rates_tickers"
    "ex_ticker ''BTCUSDT'' ''2000000'' ''-1'' \<in> set rates_tickers"
    by (simp_all add: rates_tickers_def)
  have el: "eligible ex_env rates_fundings (ex_ticker ''ETHUSDT'' ''3000000'' ''3'')"
    "eligible ex_env rates_fundings (ex_ticker ''BTCUSDT'' ''2000000'' ''-1'')"
    by (simp_all add: rates_spec)
  have rates: "map (funding_rate_of ex_env rates_fundings) rates_tickers
       = [Inr (Finite 0.0001), Inr (Finite 0), Inr (Finite (- 0.0002)), Inr (Finite 0)]"
    by (simp add: rates_spec)
  have eth: "funding_rate_of ex_env rates_fundings (ex_ticker ''ETHUSDT'' ''3000000'' ''3'') = Inr (Finite 0)"
    and btc: "funding_rate_of ex_env rates_fundings (ex_ticker ''BTCUSDT'' ''2000000'' ''-1'') = Inr (Finite 0.0001)"
    by (simp_all add: rates_spec)
  have syms: "map symbol (data rates_snapshot) = [''SOL/USDT'', ''BTC/USDT'']"
    "map symbol (other rates_snapshot) = [''ETH/USDT'', ''XRP/USDT'']"
    by (simp_all add: rates_snapshot_def ex_row_def)
  from zero_rate_goes_other [OF rates_cycle rates_payloads mem(1) el(1)] eth
  have e: "listed ex_env (ex_ticker ''ETHUSDT'' ''3000000'' ''3'') (other rates_snapshot)"
    "\<not> listed ex_env (ex_ticker ''ETHUSDT'' ''3000000'' ''3'') (data rates_snapshot)"
    by (simp_all add: feq_def)
  from zero_rate_goes_other [OF rates_cycle rates_payloads mem(2) el(2)] btc
  have b: "listed ex_env (ex_ticker ''BTCUSDT'' ''2000000'' ''-1'') (data rates_snapshot)"
    "\<not> listed ex_env (ex_ticker ''BTCUSDT'' ''2000000'' ''-1'') (other rates_snapshot)"
    by (simp_all add: feq_def)
  from rates_cycle have "fst (snapshot_cycle ex_env
      (ex_world rates_tickers rates_fundings (ok_response (JList []))) 1000 1000 cold_cache)
      = Inr rates_snapshot"
    by (simp add: prod_eq_iff)
  with rates_payloads rates syms el e b show ?thesis by simp
qed


text \<open>
  C5. When a refresh cycle succeeds and no eligible ticker has NaN for its 24h change, the
  rows of \<open>main\<close> and the rows of \<open>other\<close> are in descending order of their 24h change.
  The sort is stable: the rows of each list are the rows of a list of tickers in which,
  for every value of the 24h change, the tickers with that change are the tickers of the
  payload that belong to the list and have that change, in the order of the payload.
\<close>

theorem sorted_descending_stable:
  assumes "snapshot_cycle E W now now_ls c = (Inr s, c')"
    and "payload_items (ticker_24hr W) = Inr tickers"
    and "payload_items (premium_index W) = Inr fitems"
    and "\<forall>t \<in> set tickers. eligible E fitems t \<longrightarrow> change_key E t \<noteq> Inr NaN"
  shows "sorted_wrt (\<lambda>a b. fge (change24h a) (change24h b)) (data s)
         \<and> sorted_wrt (\<lambda>a b. fge (change24h a) (change24h b)) (other s)
         \<and> (\<exists>main_t other_t.
               list_all2 (row_of E) main_t (data s) \<and> list_all2 (row_of E) other_t (other s)
               \<and> (\<forall>k. filter (\<lambda>t. change_key E t = Inr k) main_t
                        = filter (\<lambda>t. in_main E fitems t \<and> change_key E t = Inr k) tickers)
               \<and> (\<forall>k. filter (\<lambda>t. change_key E t = Inr k) other_t
                        = filter (\<lambda>t. in_other E fitems t \<and> change_key E t = Inr k) tickers))"
proof -
  from cycle_lists [OF assms(1-3)] obtain main_t other_t where
    sm: "py_sort_desc (change_key E) (filter (in_main E fitems) tickers) = Inr main_t"
    and so: "py_sort_desc (change_key E) (filter (in_other E fitems) tickers) = Inr other_t"
    and rm: "list_all2 (row_of E) main_t (data s)"
    and ro: "list_all2 (row_of E) other_t (other s)"
    by blast
  have nm: "\<forall>t \<in> set (filter (in_main E fitems) tickers). change_key E t \<noteq> Inr NaN"
    using assms(4) by (auto simp: in_main_def)
  have no: "\<forall>t \<in> set (filter (in_other E fitems) tickers). change_key E t \<noteq> Inr NaN"
    using assms(4) by (auto simp: in_other_def)
  have s1: "sorted_wrt (\<lambda>a b. fge (change24h a) (change24h b)) (data s)"
    by (rule sorted_rows [OF rm py_sort_desc_Inr(4) [OF sm nm]])
  have s2: "sorted_wrt (\<lambda>a b. fge (change24h a) (change24h b)) (other s)"
    by (rule sorted_rows [OF ro py_sort_desc_Inr(4) [OF so no]])
  have st1: "filter (\<lambda>t. change_key E t = Inr k) main_t
               = filter (\<lambda>t. in_main E fitems t \<and> change_key E t = Inr k) tickers" for k
    using py_sort_desc_Inr(3) [OF sm, of k] by simp
  have st2: "filter (\<lambda>t. change_key E t = Inr k) other_t
               = filter (\<lambda>t. in_other E fitems t \<and> change_key E t = Inr k) tickers" for k
    using py_sort_desc_Inr(3) [OF so, of k] by simp
  from s1 s2 rm ro st1 st2 show ?thesis by blast
qed

text \<open>
  The same payload, with the changes \<open>-1\<close>, \<open>3\<close>, \<open>5\<close>, \<open>3\<close>: \<open>main\<close> is SOL (5) before
  BTC (-1), and in \<open>other\<close> ETH and XRP, both of change 3, keep the order of the payload.
\<close>

theorem sorted_descending_stable_witness:
  "fst (snapshot_cycle ex_env (ex_world rates_tickers rates_fundings (ok_response (JList [])))
        1000 1000 cold_cache) = Inr rates_snapshot
   \<and> payload_items (ticker_24hr (ex_world rates_tickers rates_fundings (ok_response (JList []))))
       = Inr rates_tickers
   \<and> payload_items (premium_index (ex_world rates_tickers rates_fundings (ok_response (JList []))))
       = Inr rates_fundings
   \<and> map (change_key ex_env) rates_tickers
       = [Inr (Finite (- 1)), Inr (Finite 3), Inr (Finite 5), Inr (Finite 3)]
   \<and> map symbol (data rates_snapshot) = [''SOL/USDT'', ''BTC/USDT'']
   \<and> map change24h (data rates_snapshot) = [Finite 5, Finite (- 1)]
   \<and> map symbol (other rates_snapshot) = [''ETH/USDT'', ''XRP/USDT'']
   \<and> map change24h (other rates_snapshot) = [Finite 3, Finite 3]
   \<and> sorted_wrt (\<lambda>a b. fge (change24h a) (change24h b)) (data rates_snapshot)
   \<and> sorted_wrt (\<lambda>a b. fge (change24h a) (change24h b)) (other rates_snapshot)
   \<and> filter (\<lambda>t. in_other ex_env rates_fundings t \<and> change_key ex_env t = Inr (Finite 3)) rates_tickers
       = [ex_ticker ''ETHUSDT'' ''3000000'' ''3'', ex_ticker ''XRPUSDT'' ''3000000'' ''3'']"
proof -
  have keys: "map (change_key ex_env) rates_tickers
       = [Inr (Finite (- 1)), Inr (Finite 3), Inr (Finite 5), Inr (Finite 3)]"
    by (simp add: rates_spec)
  have nn: "\<forall>t \<in> set rates_tickers. eligible ex_env rates_fundings t \<longrightarrow> change_key ex_env t \<noteq> Inr NaN"
    by (simp add: rates_tickers_def ex_ticker_def change_key_def float_field_def ex_env_def)
  have rows: "map symbol (data rates_snapshot) = [''SOL/USDT'', ''BTC/USDT'']"
    "map change24h (data rates_snapshot) = [Finite 5, Finite (- 1)]"
    "map symbol (other rates_snapshot) = [''ETH/USDT'', ''XRP/USDT'']"
    "map change24h (other rates_snapshot) = [Finite 3, Finite 3]"
    by (simp_all add: rates_snapshot_def ex_row_def)
  have ties: "filter (\<lambda>t. in_other ex_env rates_fundings t \<and> change_key ex_env t = Inr (Finite 3)) rates_tickers
       = [ex_ticker ''ETHUSDT'' ''3000000'' ''3'', ex_ticker ''XRPUSDT'' ''3000000'' ''3'']"
    by (simp add: rates_spec)
  from sorted_descending_stable [OF rates_cycle rates_payloads nn]
  have srt: "sorted_wrt (\<lambda>a b. fge (change24h a) (change24h b)) (data rates_snapshot)"
    "sorted_wrt (\<lambda>a b. fge (change24h a) (change24h b)) (other rates_snapshot)"
    by simp_all
  from rates_cycle have "fst (snapshot_cycle ex_env
      (ex_world rates_tickers rates_fundings (ok_response (JList []))) 1000 1000 cold_cache)
      = Inr rates_snapshot"
    by (simp add: prod_eq_iff)
  with rates_payloads keys rows srt ties show ?thesis by simp
qed

end
